theory Spec2Isabelle
  imports Complex_Main
begin

section \<open>Python values\<close>

text \<open>
  The climate platform of the Rointe integration (\<^verbatim>\<open>custom_components/rointe/climate.py\<close>)
  works on dictionaries that arrive from the device channel and from the host. Their values
  are dynamically typed, so the model has one type of Python values. A \<^verbatim>\<open>float\<close> is its
  exact rational value or one of the three special values; every finite double is a
  rational, so the theorems below quantify over a superset of the doubles (the sign of zero
  is not kept). A \<^verbatim>\<open>str\<close> is a list of characters, one \<open>char\<close> for each code point below
  256. A \<^verbatim>\<open>dict\<close> is an association list read with \<open>map_of\<close>.
\<close>

datatype pyfloat = Finite rat | PosInf | NegInf | NaN

datatype pyval =
    PNone
  | PBool bool
  | PInt int
  | PFloat pyfloat
  | PStr string
  | PList "pyval list"
  | PDict "(string \<times> pyval) list"

type_synonym pydict = "(string \<times> pyval) list"

datatype exn =
    OverflowError
  | TypeError
  | AttributeError
  | KeyError
  | ChannelError string
  | RointeDeviceError string

text \<open>\<^verbatim>\<open>d.get(k, default)\<close> and \<^verbatim>\<open>d.get(k)\<close>, whose default is \<^verbatim>\<open>None\<close>.\<close>

definition dict_get :: "pydict \<Rightarrow> string \<Rightarrow> pyval \<Rightarrow> pyval" where
  "dict_get d k dflt = (case map_of d k of None \<Rightarrow> dflt | Some v \<Rightarrow> v)"

text \<open>Truth value of an object, as \<^verbatim>\<open>if x:\<close> and \<^verbatim>\<open>not x\<close> test it.\<close>

fun py_truthy :: "pyval \<Rightarrow> bool" where
  "py_truthy PNone = False"
| "py_truthy (PBool b) = b"
| "py_truthy (PInt n) = (n \<noteq> 0)"
| "py_truthy (PFloat f) = (f \<noteq> Finite 0)"
| "py_truthy (PStr s) = (s \<noteq> [])"
| "py_truthy (PList xs) = (xs \<noteq> [])"
| "py_truthy (PDict kvs) = (kvs \<noteq> [])"

text \<open>\<^verbatim>\<open>isinstance(v, (int, float))\<close>; \<^verbatim>\<open>bool\<close> is a subclass of \<^verbatim>\<open>int\<close>.\<close>

fun is_int_or_float :: "pyval \<Rightarrow> bool" where
  "is_int_or_float (PBool b) = True"
| "is_int_or_float (PInt n) = True"
| "is_int_or_float (PFloat f) = True"
| "is_int_or_float v = False"

subsection \<open>Conversion of an integer to a double\<close>

text \<open>
  \<^verbatim>\<open>float(n)\<close> is exact up to 53 bits, rounds to the nearest double (ties to the even
  significand) above, and raises \<^verbatim>\<open>OverflowError\<close> when the rounded value would reach
  \<open>2 ^ 1024\<close>.
\<close>

fun bit_length :: "nat \<Rightarrow> nat" where
  "bit_length n = (if n = 0 then 0 else Suc (bit_length (n div 2)))"

declare bit_length.simps [simp del]

definition round53 :: "nat \<Rightarrow> nat" where
  "round53 m =
     (let shift = bit_length m - 53;
          q = m div 2 ^ shift;
          r = m mod 2 ^ shift;
          half = 2 ^ shift div 2
      in if shift = 0 then m
         else if half < r \<or> (r = half \<and> odd q) then (q + 1) * 2 ^ shift
         else q * 2 ^ shift)"

definition float_of_int :: "int \<Rightarrow> exn + pyfloat" where
  "float_of_int n =
     (let r = round53 (nat \<bar>n\<bar>)
      in if 2 ^ 1024 \<le> r then Inl OverflowError
         else Inr (Finite (if n < 0 then - of_nat r else of_nat r)))"

fun py_float :: "pyval \<Rightarrow> exn + pyfloat" where
  "py_float (PBool b) = Inr (Finite (if b then 1 else 0))"
| "py_float (PInt n) = float_of_int n"
| "py_float (PFloat f) = Inr f"
| "py_float v = Inl TypeError"

subsection \<open>Comparison\<close>

text \<open>\<^verbatim>\<open>a <= b\<close> on two floats: false as soon as one side is not a number.\<close>

fun float_le :: "pyfloat \<Rightarrow> pyfloat \<Rightarrow> bool" where
  "float_le NaN b = False"
| "float_le a NaN = False"
| "float_le NegInf b = True"
| "float_le a PosInf = True"
| "float_le (Finite a) (Finite b) = (a \<le> b)"
| "float_le a b = False"

text \<open>
  \<^verbatim>\<open>a <= v\<close> and \<^verbatim>\<open>v <= a\<close> for a float \<open>a\<close> and any object \<open>v\<close>. Python compares a
  float with an integer by their exact values, and raises \<^verbatim>\<open>TypeError\<close> when the other
  side is not a number.
\<close>

fun float_le_val :: "pyfloat \<Rightarrow> pyval \<Rightarrow> exn + bool" where
  "float_le_val a (PFloat f) = Inr (float_le a f)"
| "float_le_val a (PInt n) = Inr (float_le a (Finite (of_int n)))"
| "float_le_val a (PBool b) = Inr (float_le a (Finite (if b then 1 else 0)))"
| "float_le_val a v = Inl TypeError"

fun val_le_float :: "pyval \<Rightarrow> pyfloat \<Rightarrow> exn + bool" where
  "val_le_float (PFloat f) a = Inr (float_le f a)"
| "val_le_float (PInt n) a = Inr (float_le (Finite (of_int n)) a)"
| "val_le_float (PBool b) a = Inr (float_le (Finite (if b then 1 else 0)) a)"
| "val_le_float v a = Inl TypeError"

subsection \<open>Strings\<close>

text \<open>
  \<^verbatim>\<open>str.lower()\<close> on the code points below 256: the letters A to Z and the capital
  letters of Latin-1 (192 to 222 without the multiplication sign 215) move up by 32.
\<close>

definition lower_char :: "char \<Rightarrow> char" where
  "lower_char c =
     (let n = (of_char c :: nat)
      in if (65 \<le> n \<and> n \<le> 90) \<or> (192 \<le> n \<and> n \<le> 222 \<and> n \<noteq> 215)
         then char_of (n + 32) else c)"

definition lower :: "string \<Rightarrow> string" where
  "lower s = map lower_char s"

text \<open>\<^verbatim>\<open>a in b\<close> on two strings: \<open>a\<close> occurs in \<open>b\<close> as a contiguous run.\<close>

fun starts_with :: "string \<Rightarrow> string \<Rightarrow> bool" where
  "starts_with [] b = True"
| "starts_with (x # a) [] = False"
| "starts_with (x # a) (y # b) = (x = y \<and> starts_with a b)"

fun str_in :: "string \<Rightarrow> string \<Rightarrow> bool" where
  "str_in a [] = (a = [])"
| "str_in a (y # b) = (starts_with a (y # b) \<or> str_in a b)"

section \<open>The entity\<close>

text \<open>
  The enumerations of the host platform that the module imports: \<^verbatim>\<open>HVACMode\<close>,
  \<^verbatim>\<open>HVACAction\<close> and the two preset names, which the host defines as the strings
  \<^verbatim>\<open>"eco"\<close> and \<^verbatim>\<open>"comfort"\<close>.
\<close>

datatype HVACMode =
    HVACMode_OFF | HVACMode_HEAT | HVACMode_COOL | HVACMode_HEAT_COOL
  | HVACMode_AUTO | HVACMode_DRY | HVACMode_FAN_ONLY

datatype HVACAction =
    HVACAction_OFF | HVACAction_HEATING | HVACAction_COOLING | HVACAction_DRYING
  | HVACAction_IDLE | HVACAction_FAN

definition PRESET_ECO :: string where
  "PRESET_ECO = ''eco''"

definition PRESET_COMFORT :: string where
  "PRESET_COMFORT = ''comfort''"

definition HVAC_MODES :: "HVACMode list" where
  "HVAC_MODES = [HVACMode_OFF, HVACMode_HEAT]"

definition PRESET_MODES :: "string list" where
  "PRESET_MODES = [PRESET_ECO, PRESET_COMFORT]"

definition MIN_TEMP :: pyfloat where
  "MIN_TEMP = Finite 5"

definition MAX_TEMP :: pyfloat where
  "MAX_TEMP = Finite 35"

text \<open>
  An f-string is kept as its pieces, literal text and formatted objects, in order: the
  entity name \<^verbatim>\<open>f"{zone_name} - {device_name}"\<close> is
  \<open>[Fmt zone_name, Lit '' - '', Fmt device_name]\<close>.
\<close>

datatype fpart = Lit string | Fmt pyval

text \<open>
  The fields of \<^verbatim>\<open>RointeHeater\<close> that the constructor sets and the operations read
  or write. A leading underscore of a Python name is dropped: \<open>attr_available\<close> is
  \<^verbatim>\<open>_attr_available\<close>, and \<open>available\<close> is the separate field \<^verbatim>\<open>_available\<close>.
  The references to the host and to the channel, and the constant presentation
  attributes (icon, feature flags, unit, step, precision), are left out.
\<close>

record heater =
  device_id :: pyval
  device_info :: pydict
  attr_name :: "fpart list"
  attr_unique_id :: "fpart list"
  attr_available :: bool
  attr_min_temp :: pyfloat
  attr_max_temp :: pyfloat
  attr_hvac_mode :: HVACMode
  attr_current_temperature :: pyfloat
  attr_target_temperature :: pyval
  attr_preset_mode :: "string option"
  attr_hvac_action :: HVACAction
  current_temp :: pyfloat
  target_temp :: pyval
  available :: bool
  last_update_time :: pyval
  device_model :: pyval
  device_power :: pyval
  device_version :: pyval
  device_type :: pyval
  device_serial :: pyval
  device_mac :: pyval
  zone_name :: pyval
  device_category :: string
  device_status :: pyval
  online :: pyval
  last_seen :: pyval

text \<open>
  What an operation does outside the entity, in order: a call of \<^verbatim>\<open>ws.send\<close> with the
  device id and the update dictionary, \<^verbatim>\<open>async_write_ha_state\<close>, and
  \<^verbatim>\<open>schedule_update_ha_state\<close>. Log lines of the entity are not recorded.
\<close>

datatype effect = Send pyval pydict | WriteState | ScheduleUpdate

text \<open>
  What the channel does with one call of \<^verbatim>\<open>ws.send\<close>: it returns, or it raises an
  exception with a message.
\<close>

datatype send_outcome = Delivered | Raises string

subsection \<open>Construction\<close>

text \<open>
  The table \<^verbatim>\<open>DEVICE_MODELS\<close> comes from the module \<^verbatim>\<open>const\<close>; it is a parameter
  here, a dictionary from model-name fragments to category labels in its iteration order.
  \<open>match_category\<close> is the \<^verbatim>\<open>for\<close> loop with its \<^verbatim>\<open>break\<close>, run on a model that is
  a string.
\<close>

fun match_category :: "(string \<times> string) list \<Rightarrow> string \<Rightarrow> string option" where
  "match_category [] model = None"
| "match_category ((model_key, category) # rest) model =
     (if str_in (lower model_key) (lower model) then Some category
      else match_category rest model)"

text \<open>
  The category block of the constructor. A model that is true but not a string has no
  \<^verbatim>\<open>lower\<close> method, which the first round of the loop finds out.
\<close>

definition categorize :: "(string \<times> string) list \<Rightarrow> pyval \<Rightarrow> exn + string" where
  "categorize DEVICE_MODELS model =
     (let found =
        (if py_truthy model then
           (case model of
              PStr m \<Rightarrow> Inr (match_category DEVICE_MODELS m)
            | _ \<Rightarrow> if DEVICE_MODELS = [] then Inr None else Inl AttributeError)
         else Inr None)
      in case found of
           Inl e \<Rightarrow> Inl e
         | Inr None \<Rightarrow> Inr ''radiator''
         | Inr (Some category) \<Rightarrow> Inr (if category = [] then ''radiator'' else category))"

definition RointeHeater_init ::
  "(string \<times> string) list \<Rightarrow> pyval \<Rightarrow> fpart list \<Rightarrow> pydict option \<Rightarrow> exn + heater" where
  "RointeHeater_init DEVICE_MODELS dev_id name info =
     (let d = (case info of None \<Rightarrow> [] | Some i \<Rightarrow> i)
      in case categorize DEVICE_MODELS (dict_get d ''model'' PNone) of
           Inl e \<Rightarrow> Inl e
         | Inr category \<Rightarrow> Inr
             \<lparr> device_id = dev_id,
               device_info = d,
               attr_name = name,
               attr_unique_id = [Lit ''rointe_'', Fmt dev_id],
               attr_available = True,
               attr_min_temp = Finite 7,
               attr_max_temp = Finite 30,
               attr_hvac_mode = HVACMode_OFF,
               attr_current_temperature = Finite 20,
               attr_target_temperature = PFloat (Finite 21),
               attr_preset_mode = Some PRESET_ECO,
               attr_hvac_action = HVACAction_OFF,
               current_temp = Finite 20,
               target_temp = PFloat (Finite 21),
               available = True,
               last_update_time = PNone,
               device_model = dict_get d ''model'' PNone,
               device_power = dict_get d ''power'' PNone,
               device_version = dict_get d ''version'' PNone,
               device_type = dict_get d ''type'' PNone,
               device_serial = dict_get d ''serialNumber'' PNone,
               device_mac = dict_get d ''mac'' PNone,
               zone_name = dict_get d ''zone'' PNone,
               device_category = category,
               device_status = dict_get d ''deviceStatus'' (PDict []),
               online = dict_get d ''online'' (PBool True),
               last_seen = dict_get d ''lastSeen'' PNone \<rparr>)"

text \<open>The property \<^verbatim>\<open>hvac_action\<close>, derived from the mode.\<close>

definition hvac_action :: "heater \<Rightarrow> HVACAction" where
  "hvac_action self =
     (if attr_hvac_mode self = HVACMode_OFF then HVACAction_OFF else HVACAction_HEATING)"

subsection \<open>Updates from the device\<close>

text \<open>
  \<^verbatim>\<open>_handle_update\<close> runs its steps inside one \<^verbatim>\<open>try\<close>. Each step is a function
  here; a step that raises has not written anything yet, so the handler keeps the entity
  as the steps before it left it, writes no state and returns.
\<close>

definition update_info :: "pydict \<Rightarrow> heater \<Rightarrow> heater" where
  "update_info state self =
     self\<lparr> device_status := dict_get state ''deviceStatus'' (device_status self),
           online := dict_get state ''online'' (online self),
           last_seen := dict_get state ''lastSeen'' (last_seen self) \<rparr>"

definition update_current_temp :: "pydict \<Rightarrow> heater \<Rightarrow> exn + heater" where
  "update_current_temp state self =
     (case map_of state ''temp'' of
        None \<Rightarrow> Inr self
      | Some v \<Rightarrow>
          if is_int_or_float v then
            (case py_float v of
               Inl e \<Rightarrow> Inl e
             | Inr temp \<Rightarrow>
                 if float_le MIN_TEMP temp \<and> float_le temp MAX_TEMP
                 then Inr (self\<lparr> current_temp := temp, attr_current_temperature := temp \<rparr>)
                 else Inr self)
          else Inr self)"

definition update_target_temp :: "pydict \<Rightarrow> heater \<Rightarrow> exn + heater" where
  "update_target_temp state self =
     (case map_of state ''um_max_temp'' of
        None \<Rightarrow> Inr self
      | Some v \<Rightarrow>
          if is_int_or_float v then
            (case py_float v of
               Inl e \<Rightarrow> Inl e
             | Inr temp \<Rightarrow>
                 if float_le MIN_TEMP temp \<and> float_le temp MAX_TEMP
                 then Inr (self\<lparr> target_temp := PFloat temp,
                                  attr_target_temperature := PFloat temp \<rparr>)
                 else Inr self)
          else Inr self)"

definition update_status :: "pydict \<Rightarrow> heater \<Rightarrow> heater" where
  "update_status state self =
     (case map_of state ''status'' of
        Some (PStr s) \<Rightarrow>
          (let status = lower s
           in if status = ''comfort'' then
                self\<lparr> attr_hvac_mode := HVACMode_HEAT,
                      attr_preset_mode := Some PRESET_COMFORT,
                      attr_hvac_action := HVACAction_HEATING \<rparr>
              else if status = ''eco'' then
                self\<lparr> attr_hvac_mode := HVACMode_HEAT,
                      attr_preset_mode := Some PRESET_ECO,
                      attr_hvac_action := HVACAction_HEATING \<rparr>
              else if status = ''ice'' then
                self\<lparr> attr_hvac_mode := HVACMode_OFF,
                      attr_preset_mode := None,
                      attr_hvac_action := HVACAction_OFF \<rparr>
              else self)
      | _ \<Rightarrow> self)"

definition handle_update :: "pydict \<Rightarrow> heater \<Rightarrow> heater \<times> effect list" where
  "handle_update state self =
     (let s1 = update_info state self
      in case update_current_temp state s1 of
           Inl e \<Rightarrow> (s1, [])
         | Inr s2 \<Rightarrow>
             (case update_target_temp state s2 of
                Inl e \<Rightarrow> (s2, [])
              | Inr s3 \<Rightarrow> ((update_status state s3)\<lparr> available := True \<rparr>, [WriteState])))"

subsection \<open>Commands\<close>

text \<open>
  Each command takes what the channel will do with its call of \<^verbatim>\<open>ws.send\<close>, and
  returns the entity as the call leaves it, the effects in order, and the exception that
  reaches the caller, if any. An exception that is not an \<^verbatim>\<open>Exception\<close> (a cancelled
  task) is outside the model; the host's state writes are taken not to raise.
\<close>

definition async_set_hvac_mode ::
  "HVACMode \<Rightarrow> send_outcome \<Rightarrow> heater \<Rightarrow> heater \<times> effect list \<times> exn option" where
  "async_set_hvac_mode hvac_mode chan self =
     (if hvac_mode \<notin> set HVAC_MODES then (self, [], None)
      else
        let updates =
          (if hvac_mode = HVACMode_HEAT then [(''status'', PStr ''comfort''), (''power'', PInt 2)]
           else if hvac_mode = HVACMode_OFF then [(''status'', PStr ''eco''), (''power'', PInt 1)]
           else [])
        in case chan of
             Delivered \<Rightarrow>
               ((if hvac_mode = HVACMode_HEAT
                 then self\<lparr> attr_hvac_mode := hvac_mode,
                            attr_preset_mode := Some PRESET_COMFORT,
                            attr_hvac_action := HVACAction_HEATING \<rparr>
                 else self\<lparr> attr_hvac_mode := hvac_mode,
                            attr_preset_mode := None,
                            attr_hvac_action := HVACAction_OFF \<rparr>),
                [Send (device_id self) updates, WriteState],
                None)
           | Raises e \<Rightarrow>
               (self\<lparr> available := False \<rparr>,
                [Send (device_id self) updates, WriteState],
                Some (RointeDeviceError (''Failed to set HVAC mode: '' @ e))))"

definition async_turn_on :: "send_outcome \<Rightarrow> heater \<Rightarrow> heater \<times> effect list \<times> exn option" where
  "async_turn_on chan self = async_set_hvac_mode HVACMode_HEAT chan self"

definition async_turn_off :: "send_outcome \<Rightarrow> heater \<Rightarrow> heater \<times> effect list \<times> exn option" where
  "async_turn_off chan self = async_set_hvac_mode HVACMode_OFF chan self"

definition async_set_preset_mode ::
  "string \<Rightarrow> send_outcome \<Rightarrow> heater \<Rightarrow> heater \<times> effect list \<times> exn option" where
  "async_set_preset_mode preset_mode chan self =
     (let updates =
        (if preset_mode = PRESET_COMFORT then [(''status'', PStr ''comfort''), (''power'', PInt 2)]
         else if preset_mode = PRESET_ECO then [(''status'', PStr ''eco''), (''power'', PInt 1)]
         else [])
      in case chan of
           Delivered \<Rightarrow>
             ((if preset_mode \<in> set [PRESET_COMFORT, PRESET_ECO]
               then self\<lparr> attr_preset_mode := Some preset_mode,
                          attr_hvac_mode := HVACMode_HEAT,
                          attr_hvac_action := HVACAction_HEATING \<rparr>
               else self\<lparr> attr_preset_mode := Some preset_mode,
                          attr_hvac_mode := HVACMode_OFF,
                          attr_hvac_action := HVACAction_OFF \<rparr>),
              [Send (device_id self) updates, WriteState],
              None)
         | Raises e \<Rightarrow>
             (self,
              [Send (device_id self) updates],
              Some (RointeDeviceError (''Failed to set preset: '' @ e))))"

text \<open>
  \<^verbatim>\<open>async_set_temperature\<close> takes \<^verbatim>\<open>kwargs.get(ATTR_TEMPERATURE)\<close>, which is
  \<^verbatim>\<open>None\<close> when the key is absent. \<^verbatim>\<open>self.min_temp\<close> and \<^verbatim>\<open>self.max_temp\<close> are the
  host's properties that return \<^verbatim>\<open>_attr_min_temp\<close> and \<^verbatim>\<open>_attr_max_temp\<close>. The chained
  comparison evaluates its second half only when the first is true.
\<close>

definition temp_in_range :: "heater \<Rightarrow> pyval \<Rightarrow> exn + bool" where
  "temp_in_range self temperature =
     (case float_le_val (attr_min_temp self) temperature of
        Inl e \<Rightarrow> Inl e
      | Inr b \<Rightarrow> if b then val_le_float temperature (attr_max_temp self) else Inr False)"

definition async_set_temperature ::
  "pyval \<Rightarrow> send_outcome \<Rightarrow> heater \<Rightarrow> heater \<times> effect list \<times> exn option" where
  "async_set_temperature temperature chan self =
     (if temperature = PNone then (self, [], None)
      else
        (case temp_in_range self temperature of
           Inl e \<Rightarrow> (self, [], Some e)
         | Inr ok \<Rightarrow>
             if \<not> ok then (self, [], None)
             else
               (let self' = self\<lparr> target_temp := temperature,
                                  attr_target_temperature := temperature \<rparr>;
                    updates = [(''um_max_temp'', temperature)]
                in (case chan of
                      Raises e \<Rightarrow> (self', [Send (device_id self) updates], Some (ChannelError e))
                    | Delivered \<Rightarrow>
                        (self', [Send (device_id self) updates, ScheduleUpdate], None)))))"

subsection \<open>Sequences of operations\<close>

text \<open>
  The four operations that the claims range over, each with its argument and, for a
  command, with what the channel does. \<open>run\<close> applies a sequence to an entity.
\<close>

datatype operation =
    Update pydict
  | SetHvacMode HVACMode send_outcome
  | SetPresetMode string send_outcome
  | SetTemperature pyval send_outcome

fun step :: "heater \<Rightarrow> operation \<Rightarrow> heater" where
  "step self (Update state) = fst (handle_update state self)"
| "step self (SetHvacMode m chan) = fst (async_set_hvac_mode m chan self)"
| "step self (SetPresetMode p chan) = fst (async_set_preset_mode p chan self)"
| "step self (SetTemperature t chan) = fst (async_set_temperature t chan self)"

definition run :: "heater \<Rightarrow> operation list \<Rightarrow> heater" where
  "run self ops = foldl step self ops"

section \<open>Platform setup\<close>

text \<open>
  \<^verbatim>\<open>async_setup_entry\<close> reads the entry's data (the dictionary found under
  \<^verbatim>\<open>hass.data[DOMAIN][entry.entry_id]\<close>), builds one entity for each device record and
  hands the list to the host. The error-level log lines of the loop are kept.
\<close>

datatype log_entry =
    No_devices_found
  | Device_missing_ID pyval
  | Error_creating_entity pyval exn
  | No_valid_entities

text \<open>
  The body of the inner \<^verbatim>\<open>try\<close> for one record: the entity, nothing after the
  \<^verbatim>\<open>continue\<close> of a record without id, or the exception. A record that is not a
  dictionary has no \<^verbatim>\<open>get\<close>.
\<close>

definition create_entity :: "(string \<times> string) list \<Rightarrow> pyval \<Rightarrow> exn + heater option" where
  "create_entity DEVICE_MODELS dev =
     (case dev of
        PDict d \<Rightarrow>
          (let dev_id = dict_get d ''id'' PNone;
               device_name = dict_get d ''name'' (PStr ''Unknown Device'');
               zone = dict_get d ''zone'' (PStr ''Unknown Zone'')
           in if \<not> py_truthy dev_id then Inr None
              else case RointeHeater_init DEVICE_MODELS dev_id
                          [Fmt zone, Lit '' - '', Fmt device_name] (Some d) of
                     Inl e \<Rightarrow> Inl e
                   | Inr entity \<Rightarrow> Inr (Some entity))
      | _ \<Rightarrow> Inl AttributeError)"

text \<open>The \<^verbatim>\<open>for\<close> loop, with the list \<^verbatim>\<open>entities\<close> and the log as accumulators.\<close>

fun setup_loop ::
  "(string \<times> string) list \<Rightarrow> pyval list \<Rightarrow> heater list \<Rightarrow> log_entry list
     \<Rightarrow> heater list \<times> log_entry list" where
  "setup_loop DEVICE_MODELS [] entities logs = (entities, logs)"
| "setup_loop DEVICE_MODELS (dev # devices) entities logs =
     (case create_entity DEVICE_MODELS dev of
        Inr None \<Rightarrow> setup_loop DEVICE_MODELS devices entities (logs @ [Device_missing_ID dev])
      | Inr (Some entity) \<Rightarrow> setup_loop DEVICE_MODELS devices (entities @ [entity]) logs
      | Inl e \<Rightarrow> setup_loop DEVICE_MODELS devices entities (logs @ [Error_creating_entity dev e]))"

text \<open>
  What \<^verbatim>\<open>for dev in devices\<close> iterates over: the items of a list, the keys of a
  dictionary, the characters of a string; a number is not iterable.
\<close>

fun dict_keys :: "pydict \<Rightarrow> string list" where
  "dict_keys [] = []"
| "dict_keys ((k, v) # rest) = k # filter (\<lambda>k'. k' \<noteq> k) (dict_keys rest)"

fun py_iter :: "pyval \<Rightarrow> exn + pyval list" where
  "py_iter (PList xs) = Inr xs"
| "py_iter (PDict kvs) = Inr (map PStr (dict_keys kvs))"
| "py_iter (PStr s) = Inr (map (\<lambda>c. PStr [c]) s)"
| "py_iter v = Inl TypeError"

text \<open>
  The result of a setup that returns: the list passed to \<^verbatim>\<open>async_add_entities\<close>, if
  it was called, and the log. An exception of the outer \<^verbatim>\<open>try\<close> is logged and raised
  again.
\<close>

record setup_result =
  added :: "heater list option"
  logged :: "log_entry list"

definition async_setup_entry :: "(string \<times> string) list \<Rightarrow> pydict \<Rightarrow> exn + setup_result" where
  "async_setup_entry DEVICE_MODELS data =
     (case map_of data ''ws'' of
        None \<Rightarrow> Inl KeyError
      | Some ws \<Rightarrow>
          (case map_of data ''devices'' of
             None \<Rightarrow> Inl KeyError
           | Some devices \<Rightarrow>
               if \<not> py_truthy devices then Inr \<lparr> added = None, logged = [No_devices_found] \<rparr>
               else
                 (case py_iter devices of
                    Inl e \<Rightarrow> Inl e
                  | Inr devs \<Rightarrow>
                      (case setup_loop DEVICE_MODELS devs [] [] of
                         (entities, logs) \<Rightarrow>
                           if entities \<noteq> []
                           then Inr \<lparr> added = Some entities, logged = logs \<rparr>
                           else Inr \<lparr> added = None, logged = logs @ [No_valid_entities] \<rparr>))))"

section \<open>Definitions for the statements\<close>

text \<open>
  The definitions of this section are not part of the program. They say in HOL what the
  statements below are about, and give one concrete device to run the program on.
\<close>

text \<open>
  "\<open>v\<close> is numeric and lies between \<open>lo\<close> and \<open>hi\<close>", and the float that a numeric
  \<open>v\<close> stands for. A \<^verbatim>\<open>bool\<close> counts as the integer 0 or 1.
\<close>

fun spec_in_bounds :: "rat \<Rightarrow> rat \<Rightarrow> pyval \<Rightarrow> bool" where
  "spec_in_bounds lo hi (PInt n) = (lo \<le> of_int n \<and> of_int n \<le> hi)"
| "spec_in_bounds lo hi (PFloat (Finite q)) = (lo \<le> q \<and> q \<le> hi)"
| "spec_in_bounds lo hi (PBool b) = (lo \<le> (if b then 1 else 0) \<and> (if b then 1 else 0) \<le> hi)"
| "spec_in_bounds lo hi v = False"

fun spec_number :: "pyval \<Rightarrow> pyfloat" where
  "spec_number (PInt n) = Finite (of_int n)"
| "spec_number (PBool b) = Finite (if b then 1 else 0)"
| "spec_number (PFloat f) = f"
| "spec_number v = NaN"

text \<open>
  \<open>float_converts state k\<close>: the value under \<open>k\<close>, when it is an integer, is below
  \<open>2 ^ 1024 - 2 ^ 970\<close> in magnitude, the first integer that rounds to \<open>2 ^ 1024\<close>.
  These are the integers that \<^verbatim>\<open>float\<close> accepts (\<open>float_of_int_overflow_iff\<close> below).
\<close>

definition float_converts :: "pydict \<Rightarrow> string \<Rightarrow> bool" where
  "float_converts state k =
     (case map_of state k of
        Some (PInt n) \<Rightarrow> \<bar>n\<bar> < 2 ^ 1024 - 2 ^ 970
      | _ \<Rightarrow> True)"

text \<open>The table from the lower-case status word to mode, preset and action.\<close>

definition spec_status_table :: "string \<Rightarrow> (HVACMode \<times> string option \<times> HVACAction) option" where
  "spec_status_table status =
     (if status = ''comfort'' then Some (HVACMode_HEAT, Some PRESET_COMFORT, HVACAction_HEATING)
      else if status = ''eco'' then Some (HVACMode_HEAT, Some PRESET_ECO, HVACAction_HEATING)
      else if status = ''ice'' then Some (HVACMode_OFF, None, HVACAction_OFF)
      else None)"

definition mode_fields :: "heater \<Rightarrow> HVACMode \<times> string option \<times> HVACAction" where
  "mode_fields self = (attr_hvac_mode self, attr_preset_mode self, attr_hvac_action self)"

text \<open>
  The consistency of mode and preset in the words of the specification, and the form of
  it that the program keeps: in mode OFF the action is OFF and the preset is not COMFORT,
  but it need not be cleared.
\<close>

definition spec_mode_preset_consistent :: "heater \<Rightarrow> bool" where
  "spec_mode_preset_consistent self =
     (case attr_hvac_mode self of
        HVACMode_HEAT \<Rightarrow>
          attr_preset_mode self = Some PRESET_ECO \<or> attr_preset_mode self = Some PRESET_COMFORT
      | HVACMode_OFF \<Rightarrow>
          attr_preset_mode self = None \<and> attr_hvac_action self = HVACAction_OFF
      | _ \<Rightarrow> True)"

definition mode_preset_invariant :: "heater \<Rightarrow> bool" where
  "mode_preset_invariant self =
     (case attr_hvac_mode self of
        HVACMode_HEAT \<Rightarrow>
          (attr_preset_mode self = Some PRESET_ECO \<or> attr_preset_mode self = Some PRESET_COMFORT)
          \<and> attr_hvac_action self = HVACAction_HEATING
      | HVACMode_OFF \<Rightarrow>
          attr_preset_mode self \<noteq> Some PRESET_COMFORT \<and> attr_hvac_action self = HVACAction_OFF
      | _ \<Rightarrow> False)"

text \<open>
  A model table, a device record, and the entity that the constructor builds from them.
\<close>

definition example_models :: "(string \<times> string) list" where
  "example_models = [(''towel'', ''towel_rail''), (''radiator'', ''radiator'')]"

definition example_device :: pydict where
  "example_device =
     [(''id'', PStr ''dev1''), (''name'', PStr ''Heater''), (''zone'', PStr ''Hall''),
      (''model'', PStr ''Radiator Plus X2'')]"

definition example_heater :: heater where
  "example_heater =
     \<lparr> device_id = PStr ''dev1'',
       device_info = example_device,
       attr_name = [Fmt (PStr ''Hall''), Lit '' - '', Fmt (PStr ''Heater'')],
       attr_unique_id = [Lit ''rointe_'', Fmt (PStr ''dev1'')],
       attr_available = True,
       attr_min_temp = Finite 7,
       attr_max_temp = Finite 30,
       attr_hvac_mode = HVACMode_OFF,
       attr_current_temperature = Finite 20,
       attr_target_temperature = PFloat (Finite 21),
       attr_preset_mode = Some ''eco'',
       attr_hvac_action = HVACAction_OFF,
       current_temp = Finite 20,
       target_temp = PFloat (Finite 21),
       available = True,
       last_update_time = PNone,
       device_model = PStr ''Radiator Plus X2'',
       device_power = PNone,
       device_version = PNone,
       device_type = PNone,
       device_serial = PNone,
       device_mac = PNone,
       zone_name = PStr ''Hall'',
       device_category = ''radiator'',
       device_status = PDict [],
       online = PBool True,
       last_seen = PNone \<rparr>"

text \<open>
  The first entry of the model table whose key occurs in the model, both in lower case,
  and the category that the specification assigns: the value of that entry, or
  \<^verbatim>\<open>"radiator"\<close> when there is none.
\<close>

definition spec_first_match :: "(string \<times> string) list \<Rightarrow> string \<Rightarrow> (string \<times> string) option" where
  "spec_first_match DEVICE_MODELS model =
     find (\<lambda>(model_key, category). str_in (lower model_key) (lower model)) DEVICE_MODELS"

definition spec_category :: "(string \<times> string) list \<Rightarrow> string \<Rightarrow> string" where
  "spec_category DEVICE_MODELS model =
     (case spec_first_match DEVICE_MODELS model of
        None \<Rightarrow> ''radiator''
      | Some (model_key, category) \<Rightarrow> category)"

text \<open>
  For the setup: the entity that one device record yields, if any, the log line it
  yields otherwise, and what makes a record valid in the words of the specification: it is
  a dictionary with a true \<^verbatim>\<open>id\<close> whose entity construction does not raise.
  \<open>created\<close> is the list of entities that a setup handed to the host, empty when it
  handed none.
\<close>

definition entity_of :: "(string \<times> string) list \<Rightarrow> pyval \<Rightarrow> heater option" where
  "entity_of DEVICE_MODELS dev =
     (case create_entity DEVICE_MODELS dev of Inr (Some entity) \<Rightarrow> Some entity | _ \<Rightarrow> None)"

definition log_of :: "(string \<times> string) list \<Rightarrow> pyval \<Rightarrow> log_entry option" where
  "log_of DEVICE_MODELS dev =
     (case create_entity DEVICE_MODELS dev of
        Inr (Some entity) \<Rightarrow> None
      | Inr None \<Rightarrow> Some (Device_missing_ID dev)
      | Inl e \<Rightarrow> Some (Error_creating_entity dev e))"

fun spec_valid_record :: "(string \<times> string) list \<Rightarrow> pyval \<Rightarrow> bool" where
  "spec_valid_record DEVICE_MODELS (PDict d) =
     (py_truthy (dict_get d ''id'' PNone)
      \<and> \<not> isl (RointeHeater_init DEVICE_MODELS (dict_get d ''id'' PNone)
                 [Fmt (dict_get d ''zone'' (PStr ''Unknown Zone'')), Lit '' - '',
                  Fmt (dict_get d ''name'' (PStr ''Unknown Device''))] (Some d)))"
| "spec_valid_record DEVICE_MODELS dev = False"

definition created :: "setup_result \<Rightarrow> heater list" where
  "created r = (case added r of None \<Rightarrow> [] | Some entities \<Rightarrow> entities)"

text \<open>
  Entry data with four device records: a valid one, one without id, one whose model is a
  number, and one that is not a dictionary.
\<close>

definition example_data :: pydict where
  "example_data =
     [(''ws'', PNone),
      (''devices'', PList
         [PDict example_device,
          PDict [(''name'', PStr ''No id'')],
          PDict [(''id'', PStr ''dev3''), (''model'', PInt 5)],
          PInt 3])]"

section \<open>Lemmas on the conversion to a double\<close>

lemma bit_length_upper: "m < 2 ^ bit_length m"
proof (induction m rule: bit_length.induct)
  case (1 n)
  show ?case
  proof (cases "n = 0")
    case True
    then show ?thesis by (simp add: bit_length.simps)
  next
    case False
    with 1 have "n div 2 < 2 ^ bit_length (n div 2)" by simp
    then have "n < 2 * 2 ^ bit_length (n div 2)" by linarith
    with False show ?thesis by (subst bit_length.simps) simp
  qed
qed

lemma bit_length_lower: "0 < m \<Longrightarrow> 2 ^ bit_length m \<le> 2 * m"
proof (induction m rule: bit_length.induct)
  case (1 n)
  then have n: "n \<noteq> 0" by simp
  show ?case
  proof (cases "n div 2 = 0")
    case True
    with n have "n = 1" by linarith
    then show ?thesis by (simp add: bit_length.simps)
  next
    case False
    with 1 n have "2 ^ bit_length (n div 2) \<le> 2 * (n div 2)" by simp
    then have "2 * 2 ^ bit_length (n div 2) \<le> 2 * n" by linarith
    with n show ?thesis by (subst bit_length.simps) simp
  qed
qed

lemma bit_length_small: "m < 2 ^ k \<Longrightarrow> bit_length m \<le> k"
proof (cases "m = 0")
  case True
  then show ?thesis by (simp add: bit_length.simps)
next
  case False
  assume "m < 2 ^ k"
  with False bit_length_lower [of m] have "(2::nat) ^ bit_length m < 2 ^ Suc k" by simp
  then have "bit_length m < Suc k" by (simp only: power_strict_increasing_iff) 
  then show ?thesis by simp
qed

lemma bit_length_ge: "2 ^ k \<le> m \<Longrightarrow> k < bit_length m"
proof -
  assume "2 ^ k \<le> m"
  with bit_length_upper [of m] have "(2::nat) ^ k < 2 ^ bit_length m" by linarith
  then show ?thesis by (simp only: power_strict_increasing_iff)
qed

lemma round53_exact: "m < 2 ^ 53 \<Longrightarrow> round53 m = m"
  using bit_length_small [of m 53] by (simp add: round53_def)

lemma round53_ge_floor: "round53 m \<ge> (m div 2 ^ (bit_length m - 53)) * 2 ^ (bit_length m - 53)"
  by (simp add: round53_def Let_def)

lemma round53_upper: "round53 m \<le> 2 ^ bit_length m"
proof (cases "bit_length m - 53 = 0")
  case True
  with bit_length_upper [of m] show ?thesis by (simp add: round53_def)
next
  case False
  define sh where "sh = bit_length m - 53"
  from False have bl: "bit_length m = sh + 53" unfolding sh_def by simp
  have "m < 2 ^ 53 * 2 ^ sh"
    using bit_length_upper [of m] by (simp add: bl power_add mult.commute)
  then have "m div 2 ^ sh < 2 ^ 53"
    by (simp add: less_mult_imp_div_less)
  then have "m div 2 ^ sh + 1 \<le> 2 ^ 53" by simp
  then have "(m div 2 ^ sh + 1) * 2 ^ sh \<le> 2 ^ 53 * 2 ^ sh"
    by (rule mult_le_mono1)
  moreover have "m div 2 ^ sh * 2 ^ sh \<le> (m div 2 ^ sh + 1) * 2 ^ sh" by simp
  ultimately have "round53 m \<le> 2 ^ 53 * 2 ^ sh"
    using False unfolding round53_def Let_def sh_def [symmetric] by (simp split: if_splits)
  then show ?thesis by (simp add: bl power_add mult.commute)
qed

lemma round53_lower:
  assumes "2 ^ 53 \<le> m"
  shows "2 ^ (bit_length m - 1) \<le> round53 m"
proof -
  define sh where "sh = bit_length m - 53"
  from assms have pos: "0 < m" by simp
  from bit_length_ge [OF assms] have bl: "bit_length m = sh + 53" unfolding sh_def by simp
  from bit_length_lower [OF pos] have "2 ^ 52 * 2 ^ sh \<le> m"
    by (simp add: bl power_add)
  then have "(2 ^ 52 * 2 ^ sh) div 2 ^ sh \<le> m div 2 ^ sh" by (rule div_le_mono)
  then have "2 ^ 52 \<le> m div 2 ^ sh" by simp
  then have "2 ^ 52 * 2 ^ sh \<le> m div 2 ^ sh * 2 ^ sh" by (rule mult_le_mono1)
  moreover have "m div 2 ^ sh * 2 ^ sh \<le> round53 m"
    using round53_ge_floor [of m] unfolding sh_def .
  moreover have "(2::nat) ^ (bit_length m - 1) = 2 ^ 52 * 2 ^ sh"
    by (simp add: bl power_add mult.commute)
  ultimately show ?thesis by linarith
qed

lemma round53_large:
  assumes "2 ^ 53 \<le> m"
  shows "2 ^ 52 \<le> round53 m"
proof -
  define sh where "sh = bit_length m - 53"
  define s :: nat where "s = 2 ^ sh"
  define X where "X = (m div s) * s"
  from assms have pos: "0 < m" by simp
  have "\<not> bit_length m \<le> 52"
  proof
    assume "bit_length m \<le> 52"
    then have "(2::nat) ^ bit_length m \<le> 2 ^ 52" by (simp only: power_increasing_iff) 
    with bit_length_upper [of m] assms show False by simp
  qed
  then have bl: "bit_length m = sh + 53 \<or> (bit_length m = 52 + 1 \<and> sh = 0)"
    unfolding sh_def by linarith
  then have "bit_length m = sh + 53" by auto
  with bit_length_lower [OF pos] have "2 ^ 53 * s \<le> 2 * m"
    by (simp add: s_def power_add mult.commute)
  moreover have "X + m mod s = m" unfolding X_def by simp
  moreover have "m mod s < s" unfolding s_def by simp
  ultimately have "2 ^ 52 \<le> X" using assms by simp
  moreover have "X \<le> round53 m"
    using round53_ge_floor [of m] unfolding X_def s_def sh_def .
  ultimately show ?thesis by linarith
qed

lemma round53_overflow_iff: "2 ^ 1024 \<le> round53 m \<longleftrightarrow> 2 ^ 1024 - 2 ^ 970 \<le> m"
proof -
  consider (small) "m < 2 ^ 1023" | (top) "2 ^ 1023 \<le> m" "m < 2 ^ 1024" | (huge) "2 ^ 1024 \<le> m"
    by linarith
  then show ?thesis
  proof cases
    case small
    then have "bit_length m \<le> 1023" by (rule bit_length_small)
    then have "(2::nat) ^ bit_length m \<le> 2 ^ 1023" by (simp only: power_increasing_iff)
    with round53_upper [of m] have "round53 m \<le> 2 ^ 1023" by linarith
    then have "\<not> 2 ^ 1024 \<le> round53 m" by simp
    moreover from small have "\<not> 2 ^ 1024 - 2 ^ 970 \<le> m" by simp
    ultimately show ?thesis by blast
  next
    case huge
    then have "2 ^ 53 \<le> m" by simp
    from round53_lower [OF this] have "2 ^ (bit_length m - 1) \<le> round53 m" .
    moreover from bit_length_ge [OF huge] have "1024 \<le> bit_length m - 1" by simp
    then have "(2::nat) ^ 1024 \<le> 2 ^ (bit_length m - 1)" by (simp only: power_increasing_iff)
    ultimately have "2 ^ 1024 \<le> round53 m" by linarith
    moreover from huge have "2 ^ 1024 - 2 ^ 970 \<le> m" by simp
    ultimately show ?thesis by blast
  next
    case top
    from top(2) have "bit_length m \<le> 1024" by (rule bit_length_small)
    moreover from bit_length_ge [OF top(1)] have "1023 < bit_length m" .
    ultimately have bl: "bit_length m = 1024" by simp
    define q where "q = m div 2 ^ 971"
    define r where "r = m mod 2 ^ 971"
    have m: "m = q * 2 ^ 971 + r" unfolding q_def r_def by simp
    have r: "r < 2 ^ 971" unfolding r_def by simp
    have rd: "round53 m =
      (if 2 ^ 970 < r \<or> (r = 2 ^ 970 \<and> odd q) then (q + 1) * 2 ^ 971 else q * 2 ^ 971)"
      unfolding round53_def Let_def bl q_def r_def by simp
    have q: "q < 2 ^ 53"
      using top(2) unfolding q_def by (simp add: less_mult_imp_div_less)
    show ?thesis
    proof (cases "q = 2 ^ 53 - 1")
      case True
      then have "odd q" by simp
      with True m r rd show ?thesis by (auto split: if_splits)
    next
      case False
      with q have q': "q + 2 \<le> 2 ^ 53" by simp
      then have "(q + 2) * 2 ^ 971 \<le> 2 ^ 53 * (2 ^ 971 :: nat)" by (rule mult_le_mono1)
      then have le: "(q + 1) * 2 ^ 971 + 2 ^ 971 \<le> (2 ^ 1024 :: nat)" by simp
      have "round53 m \<le> (q + 1) * 2 ^ 971" unfolding rd by simp
      with le have "\<not> 2 ^ 1024 \<le> round53 m" by simp
      moreover from m r le have "\<not> 2 ^ 1024 - 2 ^ 970 \<le> m" by simp
      ultimately show ?thesis by blast
    qed
  qed
qed

lemma float_of_int_exact:
  "\<bar>n\<bar> < 2 ^ 53 \<Longrightarrow> float_of_int n = Inr (Finite (of_int n))"
proof -
  assume a: "\<bar>n\<bar> < 2 ^ 53"
  then have "nat \<bar>n\<bar> < 2 ^ 53" by simp
  then have r: "round53 (nat \<bar>n\<bar>) = nat \<bar>n\<bar>" by (rule round53_exact)
  have "nat \<bar>n\<bar> < 2 ^ 1024" using \<open>nat \<bar>n\<bar> < 2 ^ 53\<close> by simp
  then show ?thesis by (simp add: float_of_int_def r Let_def)
qed

lemma float_of_int_large:
  assumes "2 ^ 53 \<le> \<bar>n\<bar>" and "float_of_int n = Inr f"
  shows "\<exists>q. f = Finite q \<and> (q \<le> - (2 ^ 52) \<or> 2 ^ 52 \<le> q)"
proof -
  from assms(1) have "2 ^ 53 \<le> nat \<bar>n\<bar>" by simp
  then have "2 ^ 52 \<le> round53 (nat \<bar>n\<bar>)" by (rule round53_large)
  then have "(2::rat) ^ 52 \<le> of_nat (round53 (nat \<bar>n\<bar>))"
    by (metis of_nat_le_iff of_nat_numeral of_nat_power)
  with assms(2) show ?thesis
    by (auto simp: float_of_int_def Let_def split: if_splits)
qed

lemma float_of_int_overflow_iff:
  "float_of_int n = Inl OverflowError \<longleftrightarrow> 2 ^ 1024 - 2 ^ 970 \<le> \<bar>n\<bar>"
proof -
  have "float_of_int n = Inl OverflowError \<longleftrightarrow> 2 ^ 1024 \<le> round53 (nat \<bar>n\<bar>)"
    by (simp add: float_of_int_def Let_def)
  also have "\<dots> \<longleftrightarrow> 2 ^ 1024 - 2 ^ 970 \<le> nat \<bar>n\<bar>" by (rule round53_overflow_iff)
  also have "\<dots> \<longleftrightarrow> 2 ^ 1024 - 2 ^ 970 \<le> \<bar>n\<bar>" by simp linarith
  finally show ?thesis .
qed

lemma float_of_int_converts:
  assumes "\<bar>n\<bar> < 2 ^ 1024 - 2 ^ 970"
  shows "\<exists>f. float_of_int n = Inr f"
proof -
  from assms float_of_int_overflow_iff [of n] have "float_of_int n \<noteq> Inl OverflowError"
    by linarith
  then show ?thesis by (simp add: float_of_int_def Let_def split: if_splits)
qed

lemma float_of_int_raises:
  "2 ^ 1024 - 2 ^ 970 \<le> \<bar>n\<bar> \<Longrightarrow> float_of_int n = Inl OverflowError"
  by (simp only: float_of_int_overflow_iff)

section \<open>Lemmas on the update handler\<close>

lemma float_le_bounds:
  "float_le (Finite lo) f \<and> float_le f (Finite hi) \<longleftrightarrow> spec_in_bounds lo hi (PFloat f)"
  by (cases f) auto

lemma py_float_int_bounds:
  assumes "py_float (PInt n) = Inr f"
  shows "spec_in_bounds 5 35 (PFloat f) = spec_in_bounds 5 35 (PInt n)
         \<and> (spec_in_bounds 5 35 (PInt n) \<longrightarrow> f = Finite (of_int n))"
proof (cases "\<bar>n\<bar> < 2 ^ 53")
  case True
  with assms float_of_int_exact [of n] show ?thesis by simp
next
  case False
  then have big: "2 ^ 53 \<le> \<bar>n\<bar>" by simp
  with assms float_of_int_large [of n f] obtain q where
    q: "f = Finite q" "q \<le> - (2 ^ 52) \<or> 2 ^ 52 \<le> q" by auto
  from big have "\<not> (5 \<le> n \<and> n \<le> 35)" by auto
  then have "\<not> ((5::rat) \<le> of_int n \<and> (of_int n :: rat) \<le> 35)"
    by (metis of_int_le_iff of_int_numeral)
  with q show ?thesis by auto
qed

lemma py_float_int_raises:
  assumes "py_float (PInt n) = Inl e"
  shows "\<not> spec_in_bounds 5 35 (PInt n)"
proof
  assume "spec_in_bounds 5 35 (PInt n)"
  then have "5 \<le> n \<and> n \<le> 35" by simp
  then have "\<bar>n\<bar> < 2 ^ 53" by simp
  with assms float_of_int_exact [of n] show False by simp
qed

lemma update_current_temp_Inr:
  assumes "map_of state ''temp'' = Some v" and "update_current_temp state s = Inr s'"
  shows "s' = (if spec_in_bounds 5 35 v
               then s\<lparr> current_temp := spec_number v, attr_current_temperature := spec_number v \<rparr>
               else s)"
proof (cases v)
  case (PInt n)
  with assms obtain f where f: "py_float (PInt n) = Inr f"
    by (auto simp: update_current_temp_def split: sum.splits)
  from py_float_int_bounds [OF f] assms PInt f show ?thesis
    by (auto simp: update_current_temp_def MIN_TEMP_def MAX_TEMP_def float_le_bounds
             simp del: py_float.simps spec_in_bounds.simps)
next
  case (PFloat f)
  with assms show ?thesis
    by (cases f) (auto simp: update_current_temp_def MIN_TEMP_def MAX_TEMP_def split: if_splits)
qed (use assms in \<open>auto simp: update_current_temp_def MIN_TEMP_def MAX_TEMP_def split: if_splits\<close>)

lemma update_current_temp_Inl:
  assumes "map_of state ''temp'' = Some v" and "update_current_temp state s = Inl e"
  shows "\<not> spec_in_bounds 5 35 v"
proof (cases v)
  case (PInt n)
  with assms have "py_float (PInt n) = Inl e"
    by (auto simp: update_current_temp_def split: sum.splits if_splits)
  with PInt show ?thesis using py_float_int_raises by blast
qed (use assms in \<open>auto simp: update_current_temp_def split: if_splits\<close>)

lemma update_info_fields [simp]:
  "attr_current_temperature (update_info state s) = attr_current_temperature s"
  "current_temp (update_info state s) = current_temp s"
  "mode_fields (update_info state s) = mode_fields s"
  by (simp_all add: update_info_def mode_fields_def)

lemma update_target_temp_fields:
  assumes "update_target_temp state s = Inr s'"
  shows "attr_current_temperature s' = attr_current_temperature s"
    and "current_temp s' = current_temp s"
    and "mode_fields s' = mode_fields s"
  using assms
  by (auto simp: update_target_temp_def mode_fields_def split: option.splits if_splits sum.splits)

lemma update_current_temp_fields:
  assumes "update_current_temp state s = Inr s'"
  shows "mode_fields s' = mode_fields s"
  using assms
  by (auto simp: update_current_temp_def mode_fields_def split: option.splits if_splits sum.splits)

lemma update_status_fields [simp]:
  "attr_current_temperature (update_status state s) = attr_current_temperature s"
  "current_temp (update_status state s) = current_temp s"
  by (simp_all add: update_status_def Let_def split: option.splits pyval.splits)

lemma py_float_converts:
  assumes "is_int_or_float v"
    and "\<And>n. v = PInt n \<Longrightarrow> \<bar>n\<bar> < 2 ^ 1024 - 2 ^ 970"
  shows "\<exists>f. py_float v = Inr f"
  using assms by (cases v) (simp_all add: float_of_int_converts)

lemma update_current_temp_total:
  assumes "float_converts state ''temp''"
  shows "\<exists>s'. update_current_temp state s = Inr s'"
proof (cases "map_of state ''temp''")
  case None
  then show ?thesis by (simp add: update_current_temp_def)
next
  case (Some v)
  show ?thesis
  proof (cases "is_int_or_float v")
    case False
    with Some show ?thesis by (simp add: update_current_temp_def)
  next
    case True
    from assms Some have "\<And>n. v = PInt n \<Longrightarrow> \<bar>n\<bar> < 2 ^ 1024 - 2 ^ 970"
      by (simp add: float_converts_def)
    from py_float_converts [OF True this] obtain f where "py_float v = Inr f" by blast
    with Some True show ?thesis by (simp add: update_current_temp_def)
  qed
qed

lemma update_current_temp_raises:
  assumes "\<not> float_converts state ''temp''"
  shows "update_current_temp state s = Inl OverflowError"
proof -
  from assms obtain n where n: "map_of state ''temp'' = Some (PInt n)"
    and "2 ^ 1024 - 2 ^ 970 \<le> \<bar>n\<bar>"
    by (auto simp: float_converts_def split: option.splits pyval.splits)
  then have "float_of_int n = Inl OverflowError" by (simp only: float_of_int_raises)
  with n show ?thesis by (simp add: update_current_temp_def)
qed

lemma update_target_temp_total:
  assumes "float_converts state ''um_max_temp''"
  shows "\<exists>s'. update_target_temp state s = Inr s'"
proof (cases "map_of state ''um_max_temp''")
  case None
  then show ?thesis by (simp add: update_target_temp_def)
next
  case (Some v)
  show ?thesis
  proof (cases "is_int_or_float v")
    case False
    with Some show ?thesis by (simp add: update_target_temp_def)
  next
    case True
    from assms Some have "\<And>n. v = PInt n \<Longrightarrow> \<bar>n\<bar> < 2 ^ 1024 - 2 ^ 970"
      by (simp add: float_converts_def)
    from py_float_converts [OF True this] obtain f where "py_float v = Inr f" by blast
    with Some True show ?thesis by (simp add: update_target_temp_def)
  qed
qed

lemma update_target_temp_raises:
  assumes "\<not> float_converts state ''um_max_temp''"
  shows "update_target_temp state s = Inl OverflowError"
proof -
  from assms obtain n where n: "map_of state ''um_max_temp'' = Some (PInt n)"
    and "2 ^ 1024 - 2 ^ 970 \<le> \<bar>n\<bar>"
    by (auto simp: float_converts_def split: option.splits pyval.splits)
  then have "float_of_int n = Inl OverflowError" by (simp only: float_of_int_raises)
  with n show ?thesis by (simp add: update_target_temp_def)
qed

lemma update_status_table:
  "map_of state ''status'' = Some (PStr s) \<Longrightarrow>
   mode_fields (update_status state self) =
     (case spec_status_table (lower s) of Some t \<Rightarrow> t | None \<Rightarrow> mode_fields self)"
  by (simp add: update_status_def spec_status_table_def mode_fields_def Let_def)

lemma handle_update_cases:
  obtains (dropped1) "handle_update state self = (update_info state self, [])"
  | (dropped2) s2 where "update_current_temp state (update_info state self) = Inr s2"
      and "handle_update state self = (s2, [])"
  | (applied) s2 s3 where "update_current_temp state (update_info state self) = Inr s2"
      and "update_target_temp state s2 = Inr s3"
      and "handle_update state self = ((update_status state s3)\<lparr> available := True \<rparr>, [WriteState])"
proof (cases "update_current_temp state (update_info state self)")
  case (Inl e)
  then have "handle_update state self = (update_info state self, [])"
    by (simp add: handle_update_def)
  then show ?thesis by (rule dropped1)
next
  case (Inr s2)
  show ?thesis
  proof (cases "update_target_temp state s2")
    case (Inl e)
    with Inr have "handle_update state self = (s2, [])"
      by (simp add: handle_update_def)
    with Inr show ?thesis by (rule dropped2)
  next
    case r3: (Inr s3)
    with Inr have "handle_update state self
        = ((update_status state s3)\<lparr> available := True \<rparr>, [WriteState])"
      by (simp add: handle_update_def)
    with Inr r3 show ?thesis by (rule applied)
  qed
qed

section \<open>Lemmas on what the operations leave alone\<close>

lemma run_snoc: "run self (ops @ [op]) = step (run self ops) op"
  by (simp add: run_def)

lemma run_Nil: "run self [] = self"
  by (simp add: run_def)

lemma update_current_temp_frame:
  assumes "update_current_temp state s = Inr s'"
  shows "attr_available s' = attr_available s"
    and "attr_min_temp s' = attr_min_temp s"
    and "attr_max_temp s' = attr_max_temp s"
    and "device_id s' = device_id s"
  using assms
  by (auto simp: update_current_temp_def split: option.splits if_splits sum.splits)

lemma update_target_temp_frame:
  assumes "update_target_temp state s = Inr s'"
  shows "attr_available s' = attr_available s"
    and "attr_min_temp s' = attr_min_temp s"
    and "attr_max_temp s' = attr_max_temp s"
    and "device_id s' = device_id s"
  using assms
  by (auto simp: update_target_temp_def split: option.splits if_splits sum.splits)

lemma update_status_frame [simp]:
  "attr_available (update_status state s) = attr_available s"
  "attr_min_temp (update_status state s) = attr_min_temp s"
  "attr_max_temp (update_status state s) = attr_max_temp s"
  "device_id (update_status state s) = device_id s"
  by (simp_all add: update_status_def Let_def split: option.splits pyval.splits)

lemma update_info_frame [simp]:
  "attr_available (update_info state s) = attr_available s"
  "attr_min_temp (update_info state s) = attr_min_temp s"
  "attr_max_temp (update_info state s) = attr_max_temp s"
  "device_id (update_info state s) = device_id s"
  by (simp_all add: update_info_def)

lemma handle_update_frame:
  "attr_available (fst (handle_update state self)) = attr_available self"
  "attr_min_temp (fst (handle_update state self)) = attr_min_temp self"
  "attr_max_temp (fst (handle_update state self)) = attr_max_temp self"
  "device_id (fst (handle_update state self)) = device_id self"
  by (cases state self rule: handle_update_cases;
      simp add: update_current_temp_frame update_target_temp_frame)+

lemma async_set_hvac_mode_frame:
  "attr_available (fst (async_set_hvac_mode m chan self)) = attr_available self"
  "attr_min_temp (fst (async_set_hvac_mode m chan self)) = attr_min_temp self"
  "attr_max_temp (fst (async_set_hvac_mode m chan self)) = attr_max_temp self"
  "device_id (fst (async_set_hvac_mode m chan self)) = device_id self"
  by (simp_all add: async_set_hvac_mode_def Let_def split: send_outcome.splits)

lemma async_set_preset_mode_frame:
  "attr_available (fst (async_set_preset_mode p chan self)) = attr_available self"
  "attr_min_temp (fst (async_set_preset_mode p chan self)) = attr_min_temp self"
  "attr_max_temp (fst (async_set_preset_mode p chan self)) = attr_max_temp self"
  "device_id (fst (async_set_preset_mode p chan self)) = device_id self"
  by (simp_all add: async_set_preset_mode_def Let_def split: send_outcome.splits)

lemma async_set_temperature_frame:
  "attr_available (fst (async_set_temperature t chan self)) = attr_available self"
  "attr_min_temp (fst (async_set_temperature t chan self)) = attr_min_temp self"
  "attr_max_temp (fst (async_set_temperature t chan self)) = attr_max_temp self"
  "device_id (fst (async_set_temperature t chan self)) = device_id self"
  by (simp_all add: async_set_temperature_def Let_def split: send_outcome.splits sum.splits)

lemma step_frame:
  "attr_available (step self op) = attr_available self"
  "attr_min_temp (step self op) = attr_min_temp self"
  "attr_max_temp (step self op) = attr_max_temp self"
  "device_id (step self op) = device_id self"
  by (cases op; simp add: handle_update_frame async_set_hvac_mode_frame
        async_set_preset_mode_frame async_set_temperature_frame)+

lemma run_frame:
  "attr_available (run self ops) = attr_available self"
  "attr_min_temp (run self ops) = attr_min_temp self"
  "attr_max_temp (run self ops) = attr_max_temp self"
  "device_id (run self ops) = device_id self"
  by (induction ops rule: rev_induct; simp add: run_Nil run_snoc step_frame)+

lemma RointeHeater_init_fields:
  assumes "RointeHeater_init DEVICE_MODELS dev_id name info = Inr h"
  shows "attr_available h" and "attr_min_temp h = Finite 7" and "attr_max_temp h = Finite 30"
    and "mode_fields h = (HVACMode_OFF, Some PRESET_ECO, HVACAction_OFF)"
    and "device_id h = dev_id"
  using assms
  by (auto simp: RointeHeater_init_def Let_def mode_fields_def split: sum.splits)

lemma temp_in_range_spec:
  assumes "attr_min_temp self = Finite 7" and "attr_max_temp self = Finite 30"
    and "is_int_or_float v"
  shows "temp_in_range self v = Inr (spec_in_bounds 7 30 v)"
proof (cases v)
  case (PFloat f)
  with assms show ?thesis by (cases f) (auto simp: temp_in_range_def)
qed (use assms in \<open>auto simp: temp_in_range_def\<close>)

section \<open>Lemmas on the mode and preset invariant\<close>

lemma mode_preset_invariant_iff:
  "mode_preset_invariant s \<longleftrightarrow>
     (attr_hvac_mode s = HVACMode_HEAT
      \<and> (attr_preset_mode s = Some ''eco'' \<or> attr_preset_mode s = Some ''comfort'')
      \<and> attr_hvac_action s = HVACAction_HEATING)
     \<or> (attr_hvac_mode s = HVACMode_OFF
      \<and> attr_preset_mode s \<noteq> Some ''comfort''
      \<and> attr_hvac_action s = HVACAction_OFF)"
  by (cases "attr_hvac_mode s")
     (simp_all add: mode_preset_invariant_def PRESET_ECO_def PRESET_COMFORT_def)

lemma spec_mode_preset_consistent_iff:
  "spec_mode_preset_consistent s \<longleftrightarrow>
     (attr_hvac_mode s = HVACMode_HEAT \<longrightarrow>
        attr_preset_mode s = Some ''eco'' \<or> attr_preset_mode s = Some ''comfort'')
     \<and> (attr_hvac_mode s = HVACMode_OFF \<longrightarrow>
        attr_preset_mode s = None \<and> attr_hvac_action s = HVACAction_OFF)"
  by (cases "attr_hvac_mode s")
     (simp_all add: spec_mode_preset_consistent_def PRESET_ECO_def PRESET_COMFORT_def)

lemma mode_preset_invariant_cong:
  "mode_fields s' = mode_fields s \<Longrightarrow> mode_preset_invariant s' = mode_preset_invariant s"
  by (simp add: mode_fields_def mode_preset_invariant_iff)

lemma update_status_invariant:
  "mode_preset_invariant s \<Longrightarrow> mode_preset_invariant ((update_status state s)\<lparr> available := True \<rparr>)"
  by (auto simp: update_status_def mode_preset_invariant_iff Let_def PRESET_ECO_def PRESET_COMFORT_def
           split: option.splits pyval.splits)

lemma handle_update_invariant:
  assumes "mode_preset_invariant self"
  shows "mode_preset_invariant (fst (handle_update state self))"
proof (cases state self rule: handle_update_cases)
  case dropped1
  with assms show ?thesis by (simp add: mode_preset_invariant_cong [of "update_info state self" self])
next
  case (dropped2 s2)
  have "mode_fields s2 = mode_fields self"
    using update_current_temp_fields [OF dropped2(1)] by simp
  with assms dropped2(2) show ?thesis by (simp add: mode_preset_invariant_cong [of s2 self])
next
  case (applied s2 s3)
  have "mode_fields s3 = mode_fields self"
    using update_current_temp_fields [OF applied(1)] update_target_temp_fields(3) [OF applied(2)]
    by simp
  with assms have "mode_preset_invariant s3" by (simp add: mode_preset_invariant_cong [of s3 self])
  with applied(3) show ?thesis by (simp add: update_status_invariant)
qed

lemma async_set_hvac_mode_invariant:
  "mode_preset_invariant self \<Longrightarrow> mode_preset_invariant (fst (async_set_hvac_mode m chan self))"
  by (cases m; cases chan)
     (simp_all add: async_set_hvac_mode_def HVAC_MODES_def mode_preset_invariant_iff
        PRESET_COMFORT_def PRESET_ECO_def)

lemma async_set_preset_mode_invariant:
  "mode_preset_invariant self \<Longrightarrow> mode_preset_invariant (fst (async_set_preset_mode p chan self))"
  by (cases chan)
     (auto simp: async_set_preset_mode_def mode_preset_invariant_iff Let_def
        PRESET_COMFORT_def PRESET_ECO_def)

lemma async_set_temperature_invariant:
  "mode_preset_invariant self \<Longrightarrow> mode_preset_invariant (fst (async_set_temperature t chan self))"
  by (cases chan)
     (auto simp: async_set_temperature_def mode_preset_invariant_iff Let_def split: sum.splits)

lemma step_invariant:
  "mode_preset_invariant self \<Longrightarrow> mode_preset_invariant (step self op)"
  by (cases op)
     (simp_all add: handle_update_invariant async_set_hvac_mode_invariant
        async_set_preset_mode_invariant async_set_temperature_invariant)

lemma run_invariant:
  "mode_preset_invariant self \<Longrightarrow> mode_preset_invariant (run self ops)"
  by (induction ops rule: rev_induct) (simp_all add: run_Nil run_snoc step_invariant)

lemma handle_update_ice:
  assumes "map_of state ''status'' = Some (PStr s)" and "lower s = ''ice''"
    and "float_converts state ''temp''" and "float_converts state ''um_max_temp''"
  shows "mode_fields (fst (handle_update state self)) = (HVACMode_OFF, None, HVACAction_OFF)"
proof -
  from assms(3) obtain s2 where s2: "update_current_temp state (update_info state self) = Inr s2"
    using update_current_temp_total by blast
  from assms(4) obtain s3 where s3: "update_target_temp state s2 = Inr s3"
    using update_target_temp_total by blast
  have "mode_fields (update_status state s3) = (HVACMode_OFF, None, HVACAction_OFF)"
    using update_status_table [OF assms(1), of s3] assms(2)
    by (simp add: spec_status_table_def)
  then have "mode_fields ((update_status state s3)\<lparr> available := True \<rparr>)
               = (HVACMode_OFF, None, HVACAction_OFF)"
    by (simp add: mode_fields_def)
  with s2 s3 show ?thesis by (simp add: handle_update_def)
qed

lemma async_set_hvac_mode_off_fields:
  "mode_fields (fst (async_set_hvac_mode HVACMode_OFF Delivered self))
     = (HVACMode_OFF, None, HVACAction_OFF)"
  by (simp add: async_set_hvac_mode_def HVAC_MODES_def mode_fields_def)

lemma async_set_preset_mode_other_fields:
  assumes "p \<noteq> PRESET_ECO" and "p \<noteq> PRESET_COMFORT"
  shows "mode_fields (fst (async_set_preset_mode p Delivered self))
           = (HVACMode_OFF, Some p, HVACAction_OFF)"
  using assms by (simp add: async_set_preset_mode_def mode_fields_def)

section \<open>Lemmas on the category and on the setup loop\<close>

lemma starts_with_iff: "starts_with a b \<longleftrightarrow> (\<exists>suf. b = a @ suf)"
  by (induction a b rule: starts_with.induct) auto

lemma str_in_iff: "str_in a b \<longleftrightarrow> (\<exists>pre suf. b = pre @ a @ suf)"
proof (induction b)
  case Nil
  then show ?case by simp
next
  case (Cons y b)
  show ?case
  proof
    assume "str_in a (y # b)"
    then consider "starts_with a (y # b)" | "str_in a b" by auto
    then show "\<exists>pre suf. y # b = pre @ a @ suf"
    proof cases
      case 1
      then obtain suf where "y # b = a @ suf" using starts_with_iff by blast
      then have "y # b = [] @ a @ suf" by simp
      then show ?thesis by blast
    next
      case 2
      with Cons obtain pre suf where "b = pre @ a @ suf" by blast
      then have "y # b = (y # pre) @ a @ suf" by simp
      then show ?thesis by blast
    qed
  next
    assume "\<exists>pre suf. y # b = pre @ a @ suf"
    then obtain pre suf where e: "y # b = pre @ a @ suf" by blast
    show "str_in a (y # b)"
    proof (cases pre)
      case Nil
      with e have "starts_with a (y # b)" using starts_with_iff by auto
      then show ?thesis by simp
    next
      case (Cons p pre')
      with e have "b = pre' @ a @ suf" by simp
      with Cons.IH have "str_in a b" by blast
      then show ?thesis by simp
    qed
  qed
qed

lemma match_category_find:
  "match_category DEVICE_MODELS model = map_option snd (spec_first_match DEVICE_MODELS model)"
  by (induction DEVICE_MODELS) (auto simp: spec_first_match_def)

lemma spec_first_match_mem:
  "spec_first_match DEVICE_MODELS model = Some (k, c) \<Longrightarrow> (k, c) \<in> set DEVICE_MODELS"
  unfolding spec_first_match_def by (induction DEVICE_MODELS) (auto split: if_splits)

lemma spec_first_match_empty_model:
  assumes "\<forall>(k, c) \<in> set DEVICE_MODELS. k \<noteq> []"
  shows "spec_first_match DEVICE_MODELS [] = None"
  using assms unfolding spec_first_match_def
  by (induction DEVICE_MODELS) (auto simp: lower_def)

lemma categorize_spec:
  assumes "\<forall>(k, c) \<in> set DEVICE_MODELS. k \<noteq> [] \<and> c \<noteq> []"
  shows "categorize DEVICE_MODELS (PStr model) = Inr (spec_category DEVICE_MODELS model)"
proof (cases "model = []")
  case True
  from assms have "\<forall>(k, c) \<in> set DEVICE_MODELS. k \<noteq> []" by auto
  from spec_first_match_empty_model [OF this] True show ?thesis
    by (simp add: categorize_def spec_category_def)
next
  case False
  show ?thesis
  proof (cases "spec_first_match DEVICE_MODELS model")
    case None
    with False show ?thesis
      by (simp add: categorize_def spec_category_def match_category_find)
  next
    case (Some kc)
    obtain k c where kc: "kc = (k, c)" by (cases kc)
    with Some spec_first_match_mem have "(k, c) \<in> set DEVICE_MODELS" by blast
    with assms have "c \<noteq> []" by auto
    with False Some kc show ?thesis
      by (simp add: categorize_def spec_category_def match_category_find)
  qed
qed

lemma categorize_missing: "categorize DEVICE_MODELS PNone = Inr ''radiator''"
  by (simp add: categorize_def)

lemma RointeHeater_init_category:
  assumes "categorize DEVICE_MODELS (dict_get d ''model'' PNone) = Inr c"
  shows "\<exists>h. RointeHeater_init DEVICE_MODELS dev_id name (Some d) = Inr h \<and> device_category h = c"
  using assms by (simp add: RointeHeater_init_def)

lemma setup_loop_map_filter:
  "setup_loop DEVICE_MODELS devs entities logs =
     (entities @ List.map_filter (entity_of DEVICE_MODELS) devs,
      logs @ List.map_filter (log_of DEVICE_MODELS) devs)"
proof (induction devs arbitrary: entities logs)
  case Nil
  then show ?case by (simp add: List.map_filter_simps)
next
  case (Cons dev devs)
  show ?case
  proof (cases "create_entity DEVICE_MODELS dev")
    case (Inl e)
    with Cons show ?thesis
      by (simp add: List.map_filter_simps entity_of_def log_of_def)
  next
    case (Inr r)
    with Cons show ?thesis
      by (cases r) (simp_all add: List.map_filter_simps entity_of_def log_of_def)
  qed
qed

lemma entity_of_valid:
  "entity_of DEVICE_MODELS dev \<noteq> None \<longleftrightarrow> spec_valid_record DEVICE_MODELS dev"
  by (cases dev)
     (auto simp: entity_of_def create_entity_def Let_def split: sum.splits option.splits)

lemma length_map_filter_valid:
  "length (List.map_filter (entity_of DEVICE_MODELS) devs)
     = length (filter (spec_valid_record DEVICE_MODELS) devs)"
proof (induction devs)
  case Nil
  then show ?case by (simp add: List.map_filter_simps)
next
  case (Cons dev devs)
  with entity_of_valid [of DEVICE_MODELS dev] show ?case
    by (cases "entity_of DEVICE_MODELS dev") (simp_all add: List.map_filter_simps)
qed

section \<open>The example device\<close>

lemma example_heater_constructed:
  "create_entity example_models (PDict example_device) = Inr (Some example_heater)"
  by code_simp

lemma example_heater_init:
  "RointeHeater_init example_models (PStr ''dev1'')
     [Fmt (PStr ''Hall''), Lit '' - '', Fmt (PStr ''Heater'')] (Some example_device)
   = Inr example_heater"
  by code_simp

lemma example_heater_mode_fields:
  "mode_fields example_heater = (HVACMode_OFF, Some ''eco'', HVACAction_OFF)"
  by (simp add: mode_fields_def example_heater_def)

lemma lower_examples:
  "lower ''COMFORT'' = ''comfort''" "lower ''Eco'' = ''eco''"
  by code_simp+

lemma example_first_match:
  "spec_first_match example_models ''Radiator Plus X2'' = Some (''radiator'', ''radiator'')"
  by code_simp

lemma example_create_entity:
  "create_entity example_models (PDict [(''name'', PStr ''No id'')]) = Inr None"
  "create_entity example_models (PDict [(''id'', PStr ''dev3''), (''model'', PInt 5)])
     = Inl AttributeError"
  "create_entity example_models (PInt 3) = Inl AttributeError"
  by (simp_all add: create_entity_def dict_get_def RointeHeater_init_def categorize_def
        example_models_def)

lemma lower_ice_example: "lower ''ICE'' = ''ice''"
  by code_simp

section \<open>Updates from the device\<close>

text \<open>
  C1, as the program has it. For an update whose \<^verbatim>\<open>status\<close> is a string, the handler
  sets mode, preset and action from the lower-case status word: \<^verbatim>\<open>comfort\<close> gives
  (HEAT, COMFORT, HEATING), \<^verbatim>\<open>eco\<close> gives (HEAT, ECO, HEATING), \<^verbatim>\<open>ice\<close> gives
  (OFF, None, OFF), and any other word leaves the three fields as they were. This holds when
  the values under \<^verbatim>\<open>temp\<close> and \<^verbatim>\<open>um_max_temp\<close>, if they are integers, are below
  \<open>2 ^ 1024 - 2 ^ 970\<close> in magnitude. When one of them is a larger integer, its conversion
  to a float raises inside the handler's \<^verbatim>\<open>try\<close>, the rest of the update is dropped,
  and the three fields stay as they were whatever the status says.
\<close>

theorem handle_update_status:
  assumes "map_of state ''status'' = Some (PStr s)"
  shows "mode_fields (fst (handle_update state self)) =
           (if float_converts state ''temp'' \<and> float_converts state ''um_max_temp''
            then (case spec_status_table (lower s) of
                    Some t \<Rightarrow> t
                  | None \<Rightarrow> mode_fields self)
            else mode_fields self)"
proof (cases "float_converts state ''temp''")
  case False
  then show ?thesis
    by (simp add: handle_update_def update_current_temp_raises)
next
  case True
  then obtain s2 where s2: "update_current_temp state (update_info state self) = Inr s2"
    using update_current_temp_total by blast
  have m2: "mode_fields s2 = mode_fields self"
    using update_current_temp_fields [OF s2] by simp
  show ?thesis
  proof (cases "float_converts state ''um_max_temp''")
    case False
    with True s2 m2 show ?thesis
      by (simp add: handle_update_def update_target_temp_raises)
  next
    case c3: True
    then obtain s3 where s3: "update_target_temp state s2 = Inr s3"
      using update_target_temp_total by blast
    have m3: "mode_fields s3 = mode_fields self"
      using update_target_temp_fields(3) [OF s3] m2 by simp
    have "mode_fields ((update_status state s3)\<lparr> available := True \<rparr>)
            = mode_fields (update_status state s3)"
      by (simp add: mode_fields_def)
    with True c3 s2 s3 m3 update_status_table [OF assms, of s3] show ?thesis
      by (simp add: handle_update_def split: option.splits)
  qed
qed

theorem handle_update_status_witness:
  "mode_fields (fst (handle_update [(''temp'', PInt 22), (''status'', PStr ''COMFORT'')] example_heater))
     = (HVACMode_HEAT, Some ''comfort'', HVACAction_HEATING)
   \<and> mode_fields (fst (handle_update [(''status'', PStr ''Eco'')] example_heater))
     = (HVACMode_HEAT, Some ''eco'', HVACAction_HEATING)"
proof -
  have a: "map_of [(''temp'', PInt 22), (''status'', PStr ''COMFORT'')] ''status'' = Some (PStr ''COMFORT'')"
    by simp
  have b: "map_of [(''status'', PStr ''Eco'')] ''status'' = Some (PStr ''Eco'')"
    by simp
  have c: "float_converts [(''temp'', PInt 22), (''status'', PStr ''COMFORT'')] ''temp''"
          "float_converts [(''temp'', PInt 22), (''status'', PStr ''COMFORT'')] ''um_max_temp''"
          "float_converts [(''status'', PStr ''Eco'')] ''temp''"
          "float_converts [(''status'', PStr ''Eco'')] ''um_max_temp''"
    by (simp_all add: float_converts_def)
  show ?thesis
    using handle_update_status [OF a, of example_heater] handle_update_status [OF b, of example_heater]
    by (simp add: c lower_examples spec_status_table_def PRESET_COMFORT_def PRESET_ECO_def)
qed

text \<open>
  C1 as stated fails: the update \<^verbatim>\<open>{"temp": 10**400, "status": "comfort"}\<close> has a
  string status, and the entity built from the example device is still OFF with preset ECO
  after it.
\<close>

theorem handle_update_status_counterexample:
  "create_entity example_models (PDict example_device) = Inr (Some example_heater)
   \<and> mode_fields (fst (handle_update [(''temp'', PInt (10 ^ 400)), (''status'', PStr ''comfort'')]
                         example_heater))
     = (HVACMode_OFF, Some ''eco'', HVACAction_OFF)"
  by (simp add: example_heater_constructed handle_update_def update_current_temp_def
        float_of_int_raises example_heater_mode_fields)

text \<open>
  C3. For an update that has the key \<^verbatim>\<open>temp\<close> with value \<open>v\<close>, the current
  temperature (both the attribute and the backing field) becomes the value of \<open>v\<close> exactly
  when \<open>v\<close> is numeric and lies in [5, 35]; otherwise it keeps its prior value. Nothing is
  clamped.
\<close>

theorem handle_update_temp:
  assumes "map_of state ''temp'' = Some v"
  shows "attr_current_temperature (fst (handle_update state self)) =
           (if spec_in_bounds 5 35 v then spec_number v else attr_current_temperature self)
         \<and> current_temp (fst (handle_update state self)) =
           (if spec_in_bounds 5 35 v then spec_number v else current_temp self)"
proof (cases "update_current_temp state (update_info state self)")
  case (Inl e)
  from update_current_temp_Inl [OF assms Inl] Inl show ?thesis
    by (simp add: handle_update_def)
next
  case (Inr s2)
  note s2 = update_current_temp_Inr [OF assms Inr]
  show ?thesis
  proof (cases "update_target_temp state s2")
    case (Inl e)
    with Inr s2 show ?thesis by (simp add: handle_update_def)
  next
    case r3: (Inr s3)
    from update_target_temp_fields(1,2) [OF r3] Inr r3 s2 show ?thesis
      by (simp add: handle_update_def)
  qed
qed

theorem handle_update_temp_witness:
  "attr_current_temperature (fst (handle_update [(''temp'', PInt 22)] example_heater)) = Finite 22
   \<and> attr_current_temperature (fst (handle_update [(''temp'', PFloat (Finite 36))] example_heater))
       = Finite 20"
proof -
  have a: "map_of [(''temp'', PInt 22)] ''temp'' = Some (PInt 22)"
    and b: "map_of [(''temp'', PFloat (Finite 36))] ''temp'' = Some (PFloat (Finite 36))"
    by simp_all
  show ?thesis
    using handle_update_temp [OF a, of example_heater] handle_update_temp [OF b, of example_heater]
    by (simp add: example_heater_def)
qed

section \<open>Properties of the commands\<close>

text \<open>
  C4. When the send succeeds, \<^verbatim>\<open>set_hvac_mode(HEAT)\<close> sends exactly
  \<^verbatim>\<open>{status: "comfort", power: 2}\<close> for its device, writes the state and leaves the
  entity with mode HEAT, preset COMFORT and action HEATING;
  \<^verbatim>\<open>set_hvac_mode(OFF)\<close> sends exactly \<^verbatim>\<open>{status: "eco", power: 1}\<close> and leaves
  the entity with mode OFF, no preset and action OFF. No other field changes and nothing is
  raised.
\<close>

theorem set_hvac_mode_sends_and_sets:
  "async_set_hvac_mode HVACMode_HEAT Delivered self =
     (self\<lparr> attr_hvac_mode := HVACMode_HEAT,
            attr_preset_mode := Some PRESET_COMFORT,
            attr_hvac_action := HVACAction_HEATING \<rparr>,
      [Send (device_id self) [(''status'', PStr ''comfort''), (''power'', PInt 2)], WriteState],
      None)
   \<and> async_set_hvac_mode HVACMode_OFF Delivered self =
     (self\<lparr> attr_hvac_mode := HVACMode_OFF,
            attr_preset_mode := None,
            attr_hvac_action := HVACAction_OFF \<rparr>,
      [Send (device_id self) [(''status'', PStr ''eco''), (''power'', PInt 1)], WriteState],
      None)"
  by (simp add: async_set_hvac_mode_def HVAC_MODES_def)

text \<open>
  C5. In every state reachable from construction and for every numeric \<open>v\<close>:
  when \<open>v\<close> lies in [7, 30], \<^verbatim>\<open>set_temperature(v)\<close> calls the channel with
  \<^verbatim>\<open>{um_max_temp: v}\<close> and the target temperature is \<open>v\<close>, whether the send returns or
  raises; when \<open>v\<close> lies outside, it returns silently with no send and the entity unchanged.
\<close>

theorem set_temperature_range:
  assumes "RointeHeater_init DEVICE_MODELS dev_id name info = Inr h0"
    and "self = run h0 ops"
    and "is_int_or_float v"
  shows "(spec_in_bounds 7 30 v \<longrightarrow>
            async_set_temperature v Delivered self =
              (self\<lparr> target_temp := v, attr_target_temperature := v \<rparr>,
               [Send (device_id self) [(''um_max_temp'', v)], ScheduleUpdate], None)
          \<and> async_set_temperature v (Raises e) self =
              (self\<lparr> target_temp := v, attr_target_temperature := v \<rparr>,
               [Send (device_id self) [(''um_max_temp'', v)]], Some (ChannelError e)))
       \<and> (\<not> spec_in_bounds 7 30 v \<longrightarrow> async_set_temperature v chan self = (self, [], None))"
proof -
  have "attr_min_temp self = Finite 7" "attr_max_temp self = Finite 30"
    using RointeHeater_init_fields(2,3) [OF assms(1)] assms(2) by (simp_all add: run_frame)
  then have r: "temp_in_range self v = Inr (spec_in_bounds 7 30 v)"
    using assms(3) by (rule temp_in_range_spec)
  from assms(3) have "v \<noteq> PNone" by auto
  with r show ?thesis by (simp add: async_set_temperature_def)
qed

theorem set_temperature_range_witness:
  "async_set_temperature (PFloat (Finite (43 / 2))) Delivered example_heater =
     (example_heater\<lparr> target_temp := PFloat (Finite (43 / 2)),
                      attr_target_temperature := PFloat (Finite (43 / 2)) \<rparr>,
      [Send (PStr ''dev1'') [(''um_max_temp'', PFloat (Finite (43 / 2)))], ScheduleUpdate], None)
   \<and> async_set_temperature (PInt 31) Delivered example_heater = (example_heater, [], None)"
proof -
  have a: "example_heater = run example_heater []" by (simp add: run_Nil)
  have b: "is_int_or_float (PFloat (Finite (43 / 2)))" "is_int_or_float (PInt 31)" by simp_all
  have c: "device_id example_heater = PStr ''dev1''" by (simp add: example_heater_def)
  show ?thesis
    using set_temperature_range [OF example_heater_init a b(1), of "''x''" Delivered]
          set_temperature_range [OF example_heater_init a b(2), of "''x''" Delivered]
    by (simp add: c)
qed

text \<open>
  C6 at a failing input. \<^verbatim>\<open>set_temperature(25.0)\<close> on the example entity, with a channel
  whose send raises: the target temperature is already 25 when the error reaches the
  caller, where it was 21 before the call. The temperature command writes the entity before
  it sends; the mode and preset commands send first.
\<close>

theorem set_temperature_writes_before_send:
  "async_set_temperature (PFloat (Finite 25)) (Raises ''timeout'') example_heater =
     (example_heater\<lparr> target_temp := PFloat (Finite 25),
                      attr_target_temperature := PFloat (Finite 25) \<rparr>,
      [Send (PStr ''dev1'') [(''um_max_temp'', PFloat (Finite 25))]],
      Some (ChannelError ''timeout''))
   \<and> attr_target_temperature example_heater = PFloat (Finite 21)
   \<and> target_temp example_heater = PFloat (Finite 21)"
  by code_simp

text \<open>
  C7. When the send raises with message \<open>e\<close>: \<^verbatim>\<open>set_hvac_mode\<close> sets the field
  \<^verbatim>\<open>_available\<close> to false, writes the state and raises \<^verbatim>\<open>RointeDeviceError\<close>;
  \<^verbatim>\<open>set_preset_mode\<close> raises \<^verbatim>\<open>RointeDeviceError\<close> and leaves the whole entity, its
  availability included, as it was, without a state write; \<^verbatim>\<open>set_temperature\<close>, for a
  temperature in range, lets the channel's own exception through.
\<close>

theorem send_failure_semantics:
  "async_set_hvac_mode HVACMode_HEAT (Raises e) self =
     (self\<lparr> available := False \<rparr>,
      [Send (device_id self) [(''status'', PStr ''comfort''), (''power'', PInt 2)], WriteState],
      Some (RointeDeviceError (''Failed to set HVAC mode: '' @ e)))
   \<and> async_set_hvac_mode HVACMode_OFF (Raises e) self =
     (self\<lparr> available := False \<rparr>,
      [Send (device_id self) [(''status'', PStr ''eco''), (''power'', PInt 1)], WriteState],
      Some (RointeDeviceError (''Failed to set HVAC mode: '' @ e)))
   \<and> fst (async_set_preset_mode p (Raises e) self) = self
   \<and> WriteState \<notin> set (fst (snd (async_set_preset_mode p (Raises e) self)))
   \<and> snd (snd (async_set_preset_mode p (Raises e) self))
       = Some (RointeDeviceError (''Failed to set preset: '' @ e))
   \<and> (temp_in_range self t = Inr True \<longrightarrow>
        snd (snd (async_set_temperature t (Raises e) self)) = Some (ChannelError e))"
  by (auto simp: async_set_hvac_mode_def HVAC_MODES_def async_set_preset_mode_def
        async_set_temperature_def temp_in_range_def Let_def)

theorem send_failure_semantics_witness:
  "temp_in_range example_heater (PInt 25) = Inr True
   \<and> snd (snd (async_set_temperature (PInt 25) (Raises ''timeout'') example_heater))
       = Some (ChannelError ''timeout'')
   \<and> snd (snd (async_set_preset_mode ''eco'' (Raises ''timeout'') example_heater))
       = Some (RointeDeviceError ''Failed to set preset: timeout'')"
proof -
  have a: "temp_in_range example_heater (PInt 25) = Inr True"
    by (simp add: temp_in_range_def example_heater_def)
  show ?thesis
    using a send_failure_semantics [of "''timeout''" example_heater "''eco''" "PInt 25"]
    by simp
qed

section \<open>Invariants over sequences of operations\<close>

text \<open>
  C2, as the program has it. In every state reachable from construction by updates and
  commands, the mode is HEAT or OFF; in mode HEAT the preset is ECO or COMFORT and the
  action is HEATING; in mode OFF the action is OFF and the preset is not COMFORT. From such
  a state, \<^verbatim>\<open>set_hvac_mode(OFF)\<close> with a send that succeeds, and an update whose status
  is \<^verbatim>\<open>ice\<close> in any letter case and whose temperature values convert to a float, give
  mode OFF with the preset cleared and action OFF; \<^verbatim>\<open>set_preset_mode\<close> with a name
  other than ECO and COMFORT, with a send that succeeds, gives mode OFF with that name as
  the preset and action OFF.
\<close>

theorem mode_preset_invariant_reachable:
  assumes "RointeHeater_init DEVICE_MODELS dev_id name info = Inr h0"
    and "self = run h0 ops"
  shows "mode_preset_invariant self
       \<and> mode_fields (fst (async_set_hvac_mode HVACMode_OFF Delivered self))
           = (HVACMode_OFF, None, HVACAction_OFF)
       \<and> (map_of state ''status'' = Some (PStr s) \<and> lower s = ''ice''
            \<and> float_converts state ''temp'' \<and> float_converts state ''um_max_temp''
          \<longrightarrow> mode_fields (fst (handle_update state self))
                = (HVACMode_OFF, None, HVACAction_OFF))
       \<and> (p \<noteq> PRESET_ECO \<and> p \<noteq> PRESET_COMFORT
          \<longrightarrow> mode_fields (fst (async_set_preset_mode p Delivered self))
                = (HVACMode_OFF, Some p, HVACAction_OFF))"
proof -
  have "mode_preset_invariant h0"
    using RointeHeater_init_fields(4) [OF assms(1)]
    by (simp add: mode_fields_def mode_preset_invariant_iff PRESET_ECO_def PRESET_COMFORT_def)
  then have "mode_preset_invariant self"
    unfolding assms(2) by (rule run_invariant)
  then show ?thesis
    by (simp add: async_set_hvac_mode_off_fields handle_update_ice
          async_set_preset_mode_other_fields)
qed

theorem mode_preset_invariant_reachable_witness:
  "mode_preset_invariant (run example_heater
        [SetPresetMode ''boost'' Delivered, Update [(''status'', PStr ''ice'')],
         SetHvacMode HVACMode_HEAT Delivered])
   \<and> mode_fields (fst (handle_update [(''status'', PStr ''ICE'')] (run example_heater [])))
       = (HVACMode_OFF, None, HVACAction_OFF)
   \<and> mode_fields (fst (async_set_preset_mode ''boost'' Delivered (run example_heater [])))
       = (HVACMode_OFF, Some ''boost'', HVACAction_OFF)"
proof -
  have a: "run example_heater
        [SetPresetMode ''boost'' Delivered, Update [(''status'', PStr ''ice'')],
         SetHvacMode HVACMode_HEAT Delivered]
      = run example_heater
        [SetPresetMode ''boost'' Delivered, Update [(''status'', PStr ''ice'')],
         SetHvacMode HVACMode_HEAT Delivered]"
    and b: "run example_heater [] = run example_heater []"
    by (rule refl)+
  have c: "map_of [(''status'', PStr ''ICE'')] ''status'' = Some (PStr ''ICE'')"
    "float_converts [(''status'', PStr ''ICE'')] ''temp''"
    "float_converts [(''status'', PStr ''ICE'')] ''um_max_temp''"
    by (simp_all add: float_converts_def)
  have d: "''boost'' \<noteq> PRESET_ECO" "''boost'' \<noteq> PRESET_COMFORT"
    by (simp_all add: PRESET_ECO_def PRESET_COMFORT_def)
  show ?thesis
    using mode_preset_invariant_reachable [OF example_heater_init a,
            of "[(''status'', PStr ''ICE'')]" "''ICE''" "''boost''"]
          mode_preset_invariant_reachable [OF example_heater_init b,
            of "[(''status'', PStr ''ICE'')]" "''ICE''" "''boost''"]
    by (simp add: c d lower_ice_example)
qed

text \<open>
  C2 as stated fails: the entity that the constructor returns has mode OFF with preset ECO
  and action OFF, and after \<^verbatim>\<open>set_preset_mode("boost")\<close> it has mode OFF with preset
  \<^verbatim>\<open>boost\<close> and action OFF. In both states the mode is OFF and the preset is not
  cleared.
\<close>

theorem mode_preset_consistent_counterexample:
  "RointeHeater_init example_models (PStr ''dev1'')
     [Fmt (PStr ''Hall''), Lit '' - '', Fmt (PStr ''Heater'')] (Some example_device)
   = Inr example_heater
   \<and> mode_fields (run example_heater []) = (HVACMode_OFF, Some ''eco'', HVACAction_OFF)
   \<and> \<not> spec_mode_preset_consistent (run example_heater [])
   \<and> mode_fields (run example_heater [SetPresetMode ''boost'' Delivered])
       = (HVACMode_OFF, Some ''boost'', HVACAction_OFF)
   \<and> \<not> spec_mode_preset_consistent (run example_heater [SetPresetMode ''boost'' Delivered])"
  by (simp add: example_heater_init run_def spec_mode_preset_consistent_iff mode_fields_def
        async_set_preset_mode_def PRESET_COMFORT_def PRESET_ECO_def example_heater_def)

text \<open>
  C8. \<^verbatim>\<open>_attr_available\<close> is true in every state reachable from construction. The
  failure path of the mode command writes the separate field \<^verbatim>\<open>_available\<close> only.
\<close>

theorem attr_available_never_written:
  assumes "RointeHeater_init DEVICE_MODELS dev_id name info = Inr h0"
  shows "attr_available (run h0 ops)
         \<and> attr_available (fst (async_set_hvac_mode HVACMode_HEAT (Raises e) (run h0 ops)))
         \<and> \<not> available (fst (async_set_hvac_mode HVACMode_HEAT (Raises e) (run h0 ops)))"
  using RointeHeater_init_fields(1) [OF assms]
  by (simp add: run_frame async_set_hvac_mode_frame)
     (simp add: async_set_hvac_mode_def HVAC_MODES_def)

theorem attr_available_never_written_witness:
  "RointeHeater_init example_models (PStr ''dev1'')
     [Fmt (PStr ''Hall''), Lit '' - '', Fmt (PStr ''Heater'')] (Some example_device)
   = Inr example_heater
   \<and> attr_available (run example_heater
        [SetHvacMode HVACMode_HEAT (Raises ''timeout''), Update [(''status'', PStr ''eco'')]])
   \<and> \<not> available (fst (async_set_hvac_mode HVACMode_HEAT (Raises ''timeout'') (run example_heater [])))"
  using attr_available_never_written [OF example_heater_init,
          of "[SetHvacMode HVACMode_HEAT (Raises ''timeout''), Update [(''status'', PStr ''eco'')]]"]
        attr_available_never_written [OF example_heater_init, of "[]" "''timeout''"]
        example_heater_init
  by simp

section \<open>Construction and setup\<close>

text \<open>
  C9. For a model table whose keys and category labels are non-empty strings, and for
  every model string: the constructor assigns the category of the first table entry whose
  key, in lower case, occurs in the lower-case model, and \<^verbatim>\<open>"radiator"\<close> when no entry
  matches. When the device record has no model (the key is absent or its value is
  \<^verbatim>\<open>None\<close>) the category is \<^verbatim>\<open>"radiator"\<close>.
\<close>

theorem device_category_first_match:
  assumes "\<forall>(k, c) \<in> set DEVICE_MODELS. k \<noteq> [] \<and> c \<noteq> []"
  shows "(map_of d ''model'' = Some (PStr model) \<longrightarrow>
           (\<exists>h. RointeHeater_init DEVICE_MODELS dev_id name (Some d) = Inr h
                \<and> device_category h = spec_category DEVICE_MODELS model))
       \<and> (map_of d ''model'' = None \<or> map_of d ''model'' = Some PNone \<longrightarrow>
           (\<exists>h. RointeHeater_init DEVICE_MODELS dev_id name (Some d) = Inr h
                \<and> device_category h = ''radiator''))"
proof (intro conjI impI)
  assume "map_of d ''model'' = Some (PStr model)"
  then have "dict_get d ''model'' PNone = PStr model" by (simp add: dict_get_def)
  with categorize_spec [OF assms, of model]
  show "\<exists>h. RointeHeater_init DEVICE_MODELS dev_id name (Some d) = Inr h
            \<and> device_category h = spec_category DEVICE_MODELS model"
    by (simp add: RointeHeater_init_category)
next
  assume "map_of d ''model'' = None \<or> map_of d ''model'' = Some PNone"
  then have "dict_get d ''model'' PNone = PNone" by (auto simp: dict_get_def)
  with categorize_missing [of DEVICE_MODELS]
  show "\<exists>h. RointeHeater_init DEVICE_MODELS dev_id name (Some d) = Inr h
            \<and> device_category h = ''radiator''"
    by (simp add: RointeHeater_init_category)
qed

theorem device_category_first_match_witness:
  "map_of example_device ''model'' = Some (PStr ''Radiator Plus X2'')
   \<and> (\<exists>h. RointeHeater_init example_models (PStr ''dev1'') [] (Some example_device) = Inr h
          \<and> device_category h = ''radiator'')"
proof -
  have a: "\<forall>(k, c) \<in> set example_models. k \<noteq> [] \<and> c \<noteq> []"
    by (simp add: example_models_def)
  have b: "map_of example_device ''model'' = Some (PStr ''Radiator Plus X2'')"
    by (simp add: example_device_def)
  show ?thesis
    using b device_category_first_match [OF a, of example_device "''Radiator Plus X2''" "PStr ''dev1''" "[]"]
    by (simp add: spec_category_def example_first_match)
qed

text \<open>
  C10. For entry data with a channel and a list of device records, whatever the records
  are: the setup returns, the entities it hands to the host are those of the valid records,
  one each and in order, their number is the number of valid records, and every other
  record leaves one line in the log (missing id, or the exception of its construction).
\<close>

theorem setup_skips_malformed_records:
  assumes "map_of data ''ws'' = Some ws"
    and "map_of data ''devices'' = Some (PList devs)"
  shows "\<exists>r. async_setup_entry DEVICE_MODELS data = Inr r
           \<and> created r = List.map_filter (entity_of DEVICE_MODELS) devs
           \<and> length (created r) = length (filter (spec_valid_record DEVICE_MODELS) devs)
           \<and> logged r =
               (if devs = [] then [No_devices_found]
                else List.map_filter (log_of DEVICE_MODELS) devs
                     @ (if created r = [] then [No_valid_entities] else []))"
proof (cases "devs = []")
  case True
  with assms show ?thesis
    by (simp add: async_setup_entry_def created_def List.map_filter_simps)
next
  case False
  define es where "es = List.map_filter (entity_of DEVICE_MODELS) devs"
  define ls where "ls = List.map_filter (log_of DEVICE_MODELS) devs"
  have loop: "setup_loop DEVICE_MODELS devs [] [] = (es, ls)"
    by (simp add: setup_loop_map_filter es_def ls_def)
  have len: "length es = length (filter (spec_valid_record DEVICE_MODELS) devs)"
    unfolding es_def by (rule length_map_filter_valid)
  show ?thesis
  proof (cases "es = []")
    case True
    with assms False loop len
    have "async_setup_entry DEVICE_MODELS data = Inr \<lparr> added = None, logged = ls @ [No_valid_entities] \<rparr>"
      by (simp add: async_setup_entry_def)
    with True False len show ?thesis
      by (simp add: created_def es_def [symmetric] ls_def [symmetric])
  next
    case ne: False
    with assms False loop
    have "async_setup_entry DEVICE_MODELS data = Inr \<lparr> added = Some es, logged = ls \<rparr>"
      by (simp add: async_setup_entry_def)
    with ne False len show ?thesis
      by (simp add: created_def es_def [symmetric] ls_def [symmetric])
  qed
qed

theorem setup_skips_malformed_records_witness:
  "map_of example_data ''ws'' = Some PNone
   \<and> (\<exists>r. async_setup_entry example_models example_data = Inr r
          \<and> created r = [example_heater]
          \<and> logged r =
              [Device_missing_ID (PDict [(''name'', PStr ''No id'')]),
               Error_creating_entity (PDict [(''id'', PStr ''dev3''), (''model'', PInt 5)])
                 AttributeError,
               Error_creating_entity (PInt 3) AttributeError])"
proof -
  have a: "map_of example_data ''ws'' = Some PNone"
    by (simp add: example_data_def)
  have b: "map_of example_data ''devices'' = Some (PList
         [PDict example_device,
          PDict [(''name'', PStr ''No id'')],
          PDict [(''id'', PStr ''dev3''), (''model'', PInt 5)],
          PInt 3])"
    by (simp add: example_data_def)
  from setup_skips_malformed_records [OF a b, of example_models]
  obtain r where r: "async_setup_entry example_models example_data = Inr r"
    and c: "created r = List.map_filter (entity_of example_models)
         [PDict example_device,
          PDict [(''name'', PStr ''No id'')],
          PDict [(''id'', PStr ''dev3''), (''model'', PInt 5)],
          PInt 3]"
    and l: "logged r = List.map_filter (log_of example_models)
         [PDict example_device,
          PDict [(''name'', PStr ''No id'')],
          PDict [(''id'', PStr ''dev3''), (''model'', PInt 5)],
          PInt 3] @ (if created r = [] then [No_valid_entities] else [])"
    by auto
  from c have c': "created r = [example_heater]"
    by (simp add: List.map_filter_simps entity_of_def example_create_entity
          example_heater_constructed)
  with l have "logged r =
              [Device_missing_ID (PDict [(''name'', PStr ''No id'')]),
               Error_creating_entity (PDict [(''id'', PStr ''dev3''), (''model'', PInt 5)])
                 AttributeError,
               Error_creating_entity (PInt 3) AttributeError]"
    by (simp add: List.map_filter_simps log_of_def example_create_entity
          example_heater_constructed)
  with a r c' show ?thesis by simp
qed

end
